theory Spec2Isabelle
  imports Main "HOL-Library.Sublist"
begin

section \<open>The unit-test build script \<^verbatim>\<open>build_ut.py\<close>\<close>

text \<open>
  The script parses its options and then runs external tools one after the other
  (\<^verbatim>\<open>rm\<close>, \<^verbatim>\<open>cmake\<close>, \<^verbatim>\<open>make\<close>, the test binary, optionally under \<^verbatim>\<open>valgrind\<close>,
  \<^verbatim>\<open>lcov\<close>, \<^verbatim>\<open>genhtml\<close>).  Everything outside the script is a read-only \<open>world\<close>:
  what a spawned command answers, the working directory, the processor count, the
  file system.  Everything the script does to the outside is appended to a trace of
  events, which is the state threaded through every function.  A Python exception or
  \<^verbatim>\<open>sys.exit\<close> is the left injection of the result.

  The command line is taken as \<^verbatim>\<open>argparse\<close> has parsed it.  An open file is known by
  its name.  The answer of a command may depend on everything that has happened before,
  so the world is asked with the trace so far.
\<close>

subsection \<open>Python values\<close>

type_synonym cmd = "string list"

text \<open>\<^verbatim>\<open>subprocess.CompletedProcess\<close>: the fields the script reads.\<close>

record CompletedProcess =
  args :: cmd
  returncode :: int

text \<open>
  \<^verbatim>\<open>sys.exit(msg)\<close> raises \<^verbatim>\<open>SystemExit\<close>, which is not an \<^verbatim>\<open>Exception\<close>;
  \<open>PyException\<close> stands for \<^verbatim>\<open>Exception\<close> and its subclasses (\<^verbatim>\<open>OSError\<close> of the
  library calls), with the message.
\<close>

datatype exn = SystemExit string | PyException string

text \<open>
  What the script writes to the outside.  \<open>Exec c cwd out err res\<close> is one call of
  \<^verbatim>\<open>subprocess.run(c, cwd=cwd, stdout=out, stderr=STDOUT if err)\<close> together with what
  came back: \<open>Inr rc\<close> the exit code, \<open>Inl msg\<close> when the call itself raised.
\<close>

datatype event =
    Print string
  | SetEnv string string
  | Exec cmd string "string option" bool "string + int"
  | RmTree string
  | Remove string
  | Open string
  | Close string

type_synonym trace = "event list"

record world =
  subprocess_run :: "trace \<Rightarrow> cmd \<Rightarrow> string + int"
  getcwd :: string
  cpu_count :: nat
  script_dir :: string
  path_exists :: "string \<Rightarrow> bool"
  rmtree_raises :: "string \<Rightarrow> string option"
  remove_raises :: "string \<Rightarrow> string option"
  open_raises :: "string \<Rightarrow> string option"

text \<open>The value of \<^verbatim>\<open>generateCoverageReport\<close> is a status object or a boolean.\<close>

datatype pyval = PyBool bool | PyStatus CompletedProcess

fun truthy :: "pyval \<Rightarrow> bool" where
  "truthy (PyBool b) = b"
| "truthy (PyStatus s) = True"

subsection \<open>\<^verbatim>\<open>str\<close> and \<^verbatim>\<open>join\<close>\<close>

definition digit_char :: "nat \<Rightarrow> char" where
  "digit_char n = ''0123456789'' ! (n mod 10)"

fun str_nat :: "nat \<Rightarrow> string" where
  "str_nat n = (if n < 10 then [digit_char n] else str_nat (n div 10) @ [digit_char (n mod 10)])"

declare str_nat.simps [simp del]

definition str_int :: "int \<Rightarrow> string" where
  "str_int i = (if i < 0 then CHR ''-'' # str_nat (nat (- i)) else str_nat (nat i))"

text \<open>\<^verbatim>\<open>' '.join(xs)\<close>\<close>

fun join_sp :: "string list \<Rightarrow> string" where
  "join_sp [] = []"
| "join_sp [x] = x"
| "join_sp (x # y # ys) = x @ '' '' @ join_sp (y # ys)"

subsection \<open>Default variables\<close>

definition resultOutput :: string where
  "resultOutput = ''gtest_result''"

definition valgrindOutput :: string where
  "valgrindOutput = ''valgrind_report''"

definition valgrindErrorCode :: int where
  "valgrindErrorCode = 101"

definition valgrindIgnore :: string where
  "valgrindIgnore = ''rialto-gstreamer.supp''"

subsection \<open>\<^verbatim>\<open>runcmd\<close>\<close>

definition exit_message :: "cmd \<Rightarrow> int \<Rightarrow> string" where
  "exit_message c rc =
     ''Command: '' @ [CHR 0x22] @ join_sp c @ [CHR 0x22] @ '' returned with '' @ str_int rc @ '' error code!''"

definition runcmd ::
  "world \<Rightarrow> cmd \<Rightarrow> string \<Rightarrow> string option \<Rightarrow> bool \<Rightarrow> trace \<Rightarrow> (exn + CompletedProcess) \<times> trace" where
  "runcmd w c cwd out err tr =
     (let res = subprocess_run w tr c; tr' = tr @ [Exec c cwd out err res] in
      case res of
        Inl msg \<Rightarrow> (Inl (PyException msg), tr')
      | Inr rc \<Rightarrow>
          if rc = 0 \<or> rc = valgrindErrorCode
          then (Inr \<lparr>args = c, returncode = rc\<rparr>, tr')
          else (Inl (SystemExit (exit_message c rc)), tr'))"

subsection \<open>\<^verbatim>\<open>checkAndRemoveFiles\<close>\<close>

definition includeDirs :: string where
  "includeDirs = ''tests/third-party/include''"

definition sourceFile :: string where
  "sourceFile = ''tests/third-party/source/RialtoGStreamerEMEProtectionMetadata.cpp''"

text \<open>The body of the \<^verbatim>\<open>try\<close>: the library calls may raise.\<close>

definition checkAndRemoveFiles_try :: "world \<Rightarrow> trace \<Rightarrow> (exn + unit) \<times> trace" where
  "checkAndRemoveFiles_try w tr =
     (case (if path_exists w includeDirs
            then (let t = tr @ [Print (''Removing files within: '' @ includeDirs), RmTree includeDirs] in
                  case rmtree_raises w includeDirs of
                    Some m \<Rightarrow> (Inl (PyException m), t)
                  | None \<Rightarrow> (Inr (), t))
            else (Inr (), tr)) of
        (Inl e, t) \<Rightarrow> (Inl e, t)
      | (Inr u, t) \<Rightarrow>
          if path_exists w sourceFile
          then (let t' = t @ [Print (''Removing file: '' @ sourceFile), Remove sourceFile] in
                case remove_raises w sourceFile of
                  Some m \<Rightarrow> (Inl (PyException m), t')
                | None \<Rightarrow> (Inr (), t'))
          else (Inr (), t))"

text \<open>\<^verbatim>\<open>except Exception as e\<close> catches \<open>PyException\<close> and lets \<open>SystemExit\<close> through.\<close>

definition checkAndRemoveFiles :: "world \<Rightarrow> trace \<Rightarrow> (exn + unit) \<times> trace" where
  "checkAndRemoveFiles w tr =
     (case checkAndRemoveFiles_try w tr of
        (Inl (PyException m), t) \<Rightarrow> (Inr (), t @ [Print (''An error occurred: '' @ m)])
      | (Inl (SystemExit m), t) \<Rightarrow> (Inl (SystemExit m), t)
      | (Inr u, t) \<Rightarrow> (Inr u, t))"

subsection \<open>\<^verbatim>\<open>buildTargets\<close>\<close>

text \<open>One entry of \<^verbatim>\<open>suitesToRun\<close>: the dictionary in insertion order.\<close>

record suite_info =
  suite :: string
  path :: string

type_synonym suites = "(string \<times> suite_info) list"

definition cmakeCmd :: "string \<Rightarrow> bool \<Rightarrow> string \<Rightarrow> cmd" where
  "cmakeCmd outputDir coverage branch =
     [''cmake'', ''-B'', outputDir, ''-DCMAKE_BUILD_FLAG=UnitTests'', ''-DRIALTO_ENABLE_X_RAW=1'',
      ''-DBUILD_BRANCH='' @ branch]
     @ (if coverage then [''-DCOVERAGE_ENABLED=1''] else [])"

definition makeCmd :: "world \<Rightarrow> suites \<Rightarrow> cmd" where
  "makeCmd w ss = [''make'', ''-j'' @ str_nat (cpu_count w)] @ map (\<lambda>(key, s). suite s) ss"

definition buildTargets ::
  "world \<Rightarrow> suites \<Rightarrow> string \<Rightarrow> string option \<Rightarrow> bool \<Rightarrow> bool \<Rightarrow> string \<Rightarrow> trace
     \<Rightarrow> (exn + unit) \<times> trace" where
  "buildTargets w ss outputDir resultsFile debug coverage branch tr =
     (case runcmd w (cmakeCmd outputDir coverage branch) (getcwd w) None False tr of
        (Inl e, t) \<Rightarrow> (Inl e, t)
      | (Inr st, t) \<Rightarrow>
          (let t' = t @ [Print (''+ '' @ join_sp (makeCmd w ss))] in
           case (case resultsFile of
                   Some f \<Rightarrow> runcmd w (makeCmd w ss) (getcwd w @ ''/'' @ outputDir) (Some f) True t'
                 | None \<Rightarrow> runcmd w (makeCmd w ss) (getcwd w @ ''/'' @ outputDir) None False t') of
             (Inl e, t2) \<Rightarrow> (Inl e, t2)
           | (Inr st2, t2) \<Rightarrow> (Inr (), t2)))"

subsection \<open>\<^verbatim>\<open>AddValgrind\<close> and the test command\<close>

definition AddValgrind :: "world \<Rightarrow> string \<Rightarrow> bool \<Rightarrow> bool \<Rightarrow> cmd" where
  "AddValgrind w key outputToFile outputToXml =
     [''valgrind'', ''--leak-check=full'', ''--show-leak-kinds=all'', ''--track-origins=yes'',
      ''--verbose'', ''--error-exitcode='' @ str_int valgrindErrorCode]
     @ (if outputToXml then [''--xml=yes'', ''--xml-file='' @ key @ ''_'' @ valgrindOutput @ ''.xml'']
        else if outputToFile then [''--log-file='' @ key @ ''_'' @ valgrindOutput @ ''.log'']
        else [])
     @ [''--suppressions='' @ script_dir w @ ''/'' @ valgrindIgnore]"

text \<open>The list \<^verbatim>\<open>executeCmd\<close> that the loop of \<^verbatim>\<open>runTests\<close> builds for one suite.\<close>

definition executeCmd ::
  "world \<Rightarrow> string \<Rightarrow> suite_info \<Rightarrow> bool \<Rightarrow> string option \<Rightarrow> string option \<Rightarrow> string option
     \<Rightarrow> bool \<Rightarrow> cmd" where
  "executeCmd w key s doListTests gtestFilter resultsFile xmlFile valgrind =
     (if valgrind then AddValgrind w key (resultsFile \<noteq> None) (xmlFile \<noteq> None) else [])
     @ [''.'' @ path s @ suite s]
     @ (if doListTests then [''--gtest_list_tests'']
        else case gtestFilter of None \<Rightarrow> [] | Some g \<Rightarrow> [''--gtest_filter='' @ g])
     @ (case xmlFile of
          None \<Rightarrow> []
        | Some x \<Rightarrow> if \<not> valgrind then [''--gtest_output=xml:'' @ key @ ''_'' @ x] else [])"

subsection \<open>\<^verbatim>\<open>generateCoverageReport\<close>\<close>

definition lcovBaseCmd :: cmd where
  "lcovBaseCmd = [''lcov'', ''-c'', ''-i'', ''-d'', ''.'', ''-o'', ''coverage_base.info'', ''--exclude'',
     ''/usr/*'', ''--exclude'', ''*build/*'', ''--exclude'', ''*tests/*'', ''--filter'',
     ''brace,function,trivial'']"

definition lcovTestCmd :: cmd where
  "lcovTestCmd = [''lcov'', ''-c'', ''-d'', ''.'', ''-o'', ''coverage_test.info'', ''--exclude'',
     ''/usr/*'', ''--exclude'', ''*build/*'', ''--exclude'', ''*tests/*'', ''--filter'',
     ''brace,function,trivial'']"

definition lcovCombineCmd :: cmd where
  "lcovCombineCmd = [''lcov'', ''-a'', ''coverage_base.info'', ''-a'', ''coverage_test.info'', ''-o'',
     ''coverage.info'', ''--filter'', ''brace,function,trivial'']"

definition genHtmlCmd :: cmd where
  "genHtmlCmd = [''genhtml'', ''coverage.info'', ''--output-directory'', ''gh_pages/coverage_report'',
     ''--filter'', ''brace,function,trivial'']"

definition genStatsCmd :: cmd where
  "genStatsCmd = [''lcov'', ''--summary'', ''coverage.info'', ''--filter'', ''brace,function,trivial'']"

text \<open>
  The call that every step makes: \<^verbatim>\<open>stdout=resultsFile\<close> when there is a results file,
  \<^verbatim>\<open>stderr=subprocess.STDOUT\<close> in both branches.
\<close>

definition runcmd_results :: "world \<Rightarrow> cmd \<Rightarrow> string \<Rightarrow> string option \<Rightarrow> trace
     \<Rightarrow> (exn + CompletedProcess) \<times> trace" where
  "runcmd_results w c cwd resultsFile tr =
     (case resultsFile of
        Some f \<Rightarrow> runcmd w c cwd (Some f) True tr
      | None \<Rightarrow> runcmd w c cwd None True tr)"

text \<open>\<^verbatim>\<open>a and b\<close> on Python values.\<close>

definition py_and :: "pyval \<Rightarrow> pyval \<Rightarrow> pyval" where
  "py_and a b = (if truthy a then b else a)"

text \<open>A file object is always true.\<close>

definition file_truthy :: "string \<Rightarrow> bool" where
  "file_truthy f = True"

definition generateCoverageReport ::
  "world \<Rightarrow> string \<Rightarrow> string option \<Rightarrow> trace \<Rightarrow> (exn + pyval) \<times> trace" where
  "generateCoverageReport w outputDir resultsFile tr =
     (let cwd = getcwd w @ ''/'' @ outputDir in
      case runcmd_results w lcovBaseCmd cwd resultsFile tr of
        (Inl e, t) \<Rightarrow> (Inl e, t)
      | (Inr lcovBaseStatus, t1) \<Rightarrow>
      (if \<not> truthy (PyStatus lcovBaseStatus) then (Inr (PyBool False), t1) else
      (case runcmd_results w lcovTestCmd cwd resultsFile t1 of
        (Inl e, t) \<Rightarrow> (Inl e, t)
      | (Inr lcovTestStatus, t2) \<Rightarrow>
      (if \<not> truthy (PyStatus lcovTestStatus) then (Inr (PyBool False), t2) else
      (case runcmd_results w lcovCombineCmd cwd resultsFile t2 of
        (Inl e, t) \<Rightarrow> (Inl e, t)
      | (Inr lcovCombineStatus, t3) \<Rightarrow>
      (if \<not> truthy (PyStatus lcovCombineStatus) then (Inr (PyBool False), t3) else
      (case runcmd_results w genHtmlCmd cwd resultsFile t3 of
        (Inl e, t) \<Rightarrow> (Inl e, t)
      | (Inr genHtmlStatus, t4) \<Rightarrow>
      (let statsFile = cwd @ ''/'' @ ''coverage_statistics.txt''; t5 = t4 @ [Open statsFile] in
       (case open_raises w statsFile of
         Some m \<Rightarrow> (Inl (PyException m), t5)
       | None \<Rightarrow>
       (case (if file_truthy statsFile
              then (case runcmd w genStatsCmd cwd (Some statsFile) True t5 of
                      (Inl e, t) \<Rightarrow> (Inl e, t)
                    | (Inr st, t) \<Rightarrow> (Inr (PyStatus st), t))
              else (Inr (PyBool False), t5)) of
         (Inl e, t) \<Rightarrow> (Inl e, t)
       | (Inr genStatsStatus, t6) \<Rightarrow>
           (Inr (py_and (PyStatus genHtmlStatus) genStatsStatus), t6 @ [Close statsFile])))))))))))"

subsection \<open>\<^verbatim>\<open>runTests\<close>\<close>

text \<open>The \<^verbatim>\<open>for key in suites\<close> loop, with \<^verbatim>\<open>hasFailed\<close> as its accumulator.\<close>

fun runTests_loop ::
  "world \<Rightarrow> suites \<Rightarrow> bool \<Rightarrow> string option \<Rightarrow> string \<Rightarrow> string option \<Rightarrow> string option \<Rightarrow> bool
     \<Rightarrow> bool \<Rightarrow> trace \<Rightarrow> (exn + bool) \<times> trace" where
  "runTests_loop w [] doListTests gtestFilter outputDir resultsFile xmlFile valgrind hasFailed tr =
     (Inr hasFailed, tr)"
| "runTests_loop w ((key, s) # rest) doListTests gtestFilter outputDir resultsFile xmlFile valgrind
       hasFailed tr =
     (case runcmd_results w
             (executeCmd w key s doListTests gtestFilter resultsFile xmlFile valgrind)
             (getcwd w @ ''/'' @ outputDir) resultsFile tr of
        (Inl e, t) \<Rightarrow> (Inl e, t)
      | (Inr status, t) \<Rightarrow>
          if returncode status = valgrindErrorCode
          then runTests_loop w rest doListTests gtestFilter outputDir resultsFile xmlFile valgrind True
                 (t @ [Print (''Valgrind failed for suite '' @ [CHR 0x27] @ key @ [CHR 0x27])])
          else if returncode status \<noteq> 0
          then runTests_loop w rest doListTests gtestFilter outputDir resultsFile xmlFile valgrind True
                 (t @ [Print (''Command failed for suite '' @ [CHR 0x27] @ key @ [CHR 0x27]
                        @ '' with error code '' @ [CHR 0x27] @ str_int (returncode status)
                        @ [CHR 0x27])])
          else runTests_loop w rest doListTests gtestFilter outputDir resultsFile xmlFile valgrind
                 hasFailed t)"

definition aggregate_failure :: exn where
  "aggregate_failure = PyException ''runTests has failed, exiting''"

definition runTests ::
  "world \<Rightarrow> suites \<Rightarrow> bool \<Rightarrow> string option \<Rightarrow> string \<Rightarrow> string option \<Rightarrow> string option \<Rightarrow> bool
     \<Rightarrow> bool \<Rightarrow> trace \<Rightarrow> (exn + unit) \<times> trace" where
  "runTests w ss doListTests gtestFilter outputDir resultsFile xmlFile valgrind coverage tr =
     (case runTests_loop w ss doListTests gtestFilter outputDir resultsFile xmlFile valgrind False tr of
        (Inl e, t) \<Rightarrow> (Inl e, t)
      | (Inr hasFailed, t) \<Rightarrow>
          if hasFailed then (Inl aggregate_failure, t)
          else if coverage
          then (case generateCoverageReport w outputDir resultsFile t of
                  (Inl e, t') \<Rightarrow> (Inl e, t')
                | (Inr v, t') \<Rightarrow> (Inr (), t'))
          else (Inr (), t))"

subsection \<open>\<^verbatim>\<open>main\<close>\<close>

text \<open>The parsed command line (\<^verbatim>\<open>args\<close>); \<open>None\<close> is an option that was not given.\<close>

record arguments =
  arg_output :: string
  arg_file :: "string option"
  arg_xml :: "string option"
  arg_googletestFilter :: "string option"
  arg_listTests :: bool
  arg_clean :: bool
  arg_noBuild :: bool
  arg_noTest :: bool
  arg_valgrind :: bool
  arg_coverage :: bool
  arg_branch :: string

definition suitesToRun :: suites where
  "suitesToRun = [(''gst'', \<lparr>suite = ''GstRialtoUnitTests'', path = ''/tests/ut/''\<rparr>)]"

definition cleanCmd :: "arguments \<Rightarrow> cmd" where
  "cleanCmd a = [''rm'', ''-rf'', arg_output a, resultOutput @ ''.log'', valgrindOutput @ ''.log'']"

text \<open>\<^verbatim>\<open># Clean if required\<close>\<close>

definition main_clean :: "world \<Rightarrow> arguments \<Rightarrow> trace \<Rightarrow> (exn + unit) \<times> trace" where
  "main_clean w a tr =
     (if arg_clean a
      then (case checkAndRemoveFiles w tr of
              (Inl e, t) \<Rightarrow> (Inl e, t)
            | (Inr u, t) \<Rightarrow>
                (case runcmd w (cleanCmd a) (getcwd w) None False t of
                   (Inl e, t') \<Rightarrow> (Inl e, t')
                 | (Inr st, t') \<Rightarrow> (Inr (), t')))
      else (Inr (), tr))"

text \<open>\<^verbatim>\<open># Get output file name if any\<close>\<close>

definition main_file :: "world \<Rightarrow> arguments \<Rightarrow> trace \<Rightarrow> (exn + string option) \<times> trace" where
  "main_file w a tr =
     (case arg_file a of
        None \<Rightarrow> (Inr None, tr)
      | Some n \<Rightarrow>
          (let name = (if n = [] then resultOutput @ ''.log'' else n); t = tr @ [Open name] in
           case open_raises w name of
             Some m \<Rightarrow> (Inl (PyException m), t)
           | None \<Rightarrow> (Inr (Some name), t)))"

text \<open>\<^verbatim>\<open># Get xml output file name if any\<close>\<close>

definition main_xml :: "arguments \<Rightarrow> string option" where
  "main_xml a =
     (case arg_xml a of
        None \<Rightarrow> None
      | Some x \<Rightarrow> Some (if x = [] then resultOutput @ ''.xml'' else x))"

definition main :: "world \<Rightarrow> arguments \<Rightarrow> trace \<Rightarrow> (exn + unit) \<times> trace" where
  "main w a tr =
     (case main_clean w a (tr @ [SetEnv ''RIALTO_SINKS_RANK'' ''256'']) of
        (Inl e, t) \<Rightarrow> (Inl e, t)
      | (Inr u, t1) \<Rightarrow>
      (case main_file w a t1 of
        (Inl e, t) \<Rightarrow> (Inl e, t)
      | (Inr f, t2) \<Rightarrow>
      (case (if \<not> arg_noBuild a
             then buildTargets w suitesToRun (arg_output a) f (arg_valgrind a) (arg_coverage a)
                    (arg_branch a) t2
             else (Inr (), t2)) of
        (Inl e, t) \<Rightarrow> (Inl e, t)
      | (Inr u', t3) \<Rightarrow>
          (if \<not> arg_noTest a
           then runTests w suitesToRun (arg_listTests a) (arg_googletestFilter a) (arg_output a) f
                  (main_xml a) (arg_valgrind a) (arg_coverage a) t3
           else (Inr (), t3)))))"

section \<open>Reading a trace\<close>

text \<open>The events a call has added to the trace it was given.\<close>

definition new_events :: "trace \<Rightarrow> trace \<Rightarrow> trace" where
  "new_events tr tr' = drop (length tr) tr'"

text \<open>The commands that were spawned, in order, each with what came back.\<close>

fun execs :: "trace \<Rightarrow> (cmd \<times> (string + int)) list" where
  "execs [] = []"
| "execs (Exec c cwd out err res # es) = (c, res) # execs es"
| "execs (e # es) = execs es"

text \<open>An answer that \<^verbatim>\<open>runcmd\<close> lets through: exit code 0 or the memory-check code.\<close>

fun tolerated :: "string + int \<Rightarrow> bool" where
  "tolerated (Inr rc) = (rc = 0 \<or> rc = valgrindErrorCode)"
| "tolerated (Inl m) = False"

text \<open>A result that is an exception or an exit.\<close>

fun is_abort :: "exn + 'a \<Rightarrow> bool" where
  "is_abort (Inl e) = True"
| "is_abort (Inr v) = False"

text \<open>What \<^verbatim>\<open>runcmd\<close> raises for an answer that it does not let through.\<close>

fun abort_of :: "cmd \<Rightarrow> string + int \<Rightarrow> exn" where
  "abort_of c (Inr rc) = SystemExit (exit_message c rc)"
| "abort_of c (Inl m) = PyException m"

text \<open>The commands of the test stage and of the coverage report generator.\<close>

definition test_cmds ::
  "world \<Rightarrow> suites \<Rightarrow> bool \<Rightarrow> string option \<Rightarrow> string option \<Rightarrow> string option \<Rightarrow> bool \<Rightarrow> cmd list" where
  "test_cmds w ss doListTests gtestFilter resultsFile xmlFile valgrind =
     map (\<lambda>(key, s). executeCmd w key s doListTests gtestFilter resultsFile xmlFile valgrind) ss"

definition coverage_cmds :: "cmd list" where
  "coverage_cmds = [lcovBaseCmd, lcovTestCmd, lcovCombineCmd, genHtmlCmd, genStatsCmd]"

text \<open>A command by the program it starts.\<close>

definition build_tool :: "cmd \<Rightarrow> bool" where
  "build_tool c = (take 1 c = [''cmake''] \<or> take 1 c = [''make''])"

definition clean_tool :: "cmd \<Rightarrow> bool" where
  "clean_tool c = (take 1 c = [''rm''])"

definition test_invocation :: "cmd \<Rightarrow> bool" where
  "test_invocation c =
     (take 1 c = [''valgrind''] \<or> (\<exists>(key, s) \<in> set suitesToRun. take 1 c = [''.'' @ path s @ suite s]))"

text \<open>The log file, when one was asked for, can be opened.\<close>

definition log_opens :: "world \<Rightarrow> arguments \<Rightarrow> bool" where
  "log_opens w a =
     (case arg_file a of
        None \<Rightarrow> True
      | Some n \<Rightarrow> open_raises w (if n = [] then resultOutput @ ''.log'' else n) = None)"



section \<open>Concrete runs\<close>

text \<open>A world in which every command exits with 0 and no library call raises.\<close>

definition world_ok :: world where
  "world_ok = \<lparr>subprocess_run = (\<lambda>tr c. Inr 0), getcwd = ''/work'', cpu_count = 8,
     script_dir = ''/work'', path_exists = (\<lambda>p. True), rmtree_raises = (\<lambda>p. None),
     remove_raises = (\<lambda>p. None), open_raises = (\<lambda>p. None)\<rparr>"

text \<open>The same world, except that every command starting the program \<open>prog\<close> exits with \<open>rc\<close>.\<close>

definition world_exit :: "string \<Rightarrow> int \<Rightarrow> world" where
  "world_exit prog rc =
     world_ok\<lparr>subprocess_run := (\<lambda>tr c. if take 1 c = [prog] then Inr rc else Inr 0)\<rparr>"

text \<open>The same world, except that \<^verbatim>\<open>shutil.rmtree\<close> raises.\<close>

definition world_rmtree_raises :: world where
  "world_rmtree_raises = world_ok\<lparr>rmtree_raises := (\<lambda>p. Some ''Permission denied'')\<rparr>"

text \<open>The command line without any option.\<close>

definition no_flags :: arguments where
  "no_flags = \<lparr>arg_output = ''build'', arg_file = None, arg_xml = None, arg_googletestFilter = None,
     arg_listTests = False, arg_clean = False, arg_noBuild = False, arg_noTest = False,
     arg_valgrind = False, arg_coverage = False, arg_branch = []\<rparr>"

text \<open>The command line \<^verbatim>\<open>--clean\<close>.\<close>

definition clean_flag :: arguments where
  "clean_flag = no_flags\<lparr>arg_clean := True\<rparr>"

text \<open>The command line \<^verbatim>\<open>--noBuild\<close>.\<close>

definition no_build_flag :: arguments where
  "no_build_flag = no_flags\<lparr>arg_noBuild := True\<rparr>"

definition gst_suite :: suite_info where
  "gst_suite = \<lparr>suite = ''GstRialtoUnitTests'', path = ''/tests/ut/''\<rparr>"

definition gst_binary :: string where
  "gst_binary = ''./tests/ut/GstRialtoUnitTests''"

text \<open>Two suites, to watch the loop go on or stop.\<close>

definition two_suites :: suites where
  "two_suites = [(''gst'', gst_suite), (''extra'', \<lparr>suite = ''ExtraUnitTests'', path = ''/tests/ut/''\<rparr>)]"

section \<open>Basic facts\<close>

lemma runcmd_results_eq: "runcmd_results w c cwd rf tr = runcmd w c cwd rf True tr"
  by (cases rf) (simp_all add: runcmd_results_def)

lemma snd_runcmd: "snd (runcmd w c cwd out err tr) = tr @ [Exec c cwd out err (subprocess_run w tr c)]"
  by (simp add: runcmd_def Let_def split: sum.splits)

lemma runcmd_Inr:
  "runcmd w c cwd out err tr = (Inr st, t) \<Longrightarrow>
     tolerated (subprocess_run w tr c) \<and> subprocess_run w tr c = Inr (returncode st) \<and> args st = c
     \<and> t = tr @ [Exec c cwd out err (Inr (returncode st))]"
  by (auto simp: runcmd_def Let_def split: sum.splits if_splits)

lemma runcmd_Inl:
  "runcmd w c cwd out err tr = (Inl e, t) \<Longrightarrow>
     \<not> tolerated (subprocess_run w tr c) \<and> t = tr @ [Exec c cwd out err (subprocess_run w tr c)]
     \<and> (case subprocess_run w tr c of Inl m \<Rightarrow> e = PyException m
         | Inr rc \<Rightarrow> e = SystemExit (exit_message c rc))"
  by (auto simp: runcmd_def Let_def split: sum.splits if_splits)

lemma runcmd_tolerated:
  "subprocess_run w tr c = Inr rc \<Longrightarrow> rc = 0 \<or> rc = valgrindErrorCode \<Longrightarrow>
     runcmd w c cwd out err tr = (Inr \<lparr>args = c, returncode = rc\<rparr>, tr @ [Exec c cwd out err (Inr rc)])"
  by (auto simp: runcmd_def Let_def)

lemma runcmd_exit:
  "subprocess_run w tr c = Inr rc \<Longrightarrow> rc \<noteq> 0 \<Longrightarrow> rc \<noteq> valgrindErrorCode \<Longrightarrow>
     runcmd w c cwd out err tr = (Inl (SystemExit (exit_message c rc)), tr @ [Exec c cwd out err (Inr rc)])"
  by (auto simp: runcmd_def Let_def)

lemma execs_append: "execs (xs @ ys) = execs xs @ execs ys"
  by (induction xs rule: execs.induct) simp_all

lemma new_events_append: "new_events tr (tr @ ev) = ev"
  by (simp add: new_events_def)

text \<open>The loop of \<^verbatim>\<open>runTests\<close>.\<close>

lemma loop_append:
  "runTests_loop w (pre @ post) dl gf od rf xf vg hf tr =
     (case runTests_loop w pre dl gf od rf xf vg hf tr of
        (Inl e, t) \<Rightarrow> (Inl e, t)
      | (Inr h, t) \<Rightarrow> runTests_loop w post dl gf od rf xf vg h t)"
proof (induction pre arbitrary: hf tr)
  case Nil
  show ?case by simp
next
  case (Cons x pre)
  obtain key s where x: "x = (key, s)" by (cases x)
  show ?case
    by (simp add: x Cons.IH split: prod.splits sum.splits)
qed

lemma loop_failed_stays:
  "runTests_loop w ss dl gf od rf xf vg True tr = (Inr h, t) \<Longrightarrow> h"
proof (induction ss arbitrary: tr)
  case Nil
  then show ?case by simp
next
  case (Cons x ss)
  obtain key s where x: "x = (key, s)" by (cases x)
  from Cons.prems Cons.IH show ?case
    by (auto simp: x split: prod.splits sum.splits if_splits)
qed


lemma test_cmds_Cons:
  "test_cmds w ((key, s) # ss) dl gf rf xf vg = executeCmd w key s dl gf rf xf vg # test_cmds w ss dl gf rf xf vg"
  by (simp add: test_cmds_def)

lemma test_cmds_Nil: "test_cmds w [] dl gf rf xf vg = []"
  by (simp add: test_cmds_def)

lemma loop_spec:
  "runTests_loop w ss dl gf od rf xf vg hf tr = (r, t) \<Longrightarrow>
   \<exists>new. t = tr @ new \<and>
     prefix (map fst (execs new)) (test_cmds w ss dl gf rf xf vg) \<and>
     (case r of
        Inr h \<Rightarrow> map fst (execs new) = test_cmds w ss dl gf rf xf vg
               \<and> (\<forall>x\<in>set (execs new). tolerated (snd x))
               \<and> (h \<longleftrightarrow> hf \<or> (\<exists>x\<in>set (execs new). snd x = Inr valgrindErrorCode))
      | Inl e \<Rightarrow> execs new \<noteq> [] \<and> \<not> tolerated (snd (last (execs new)))
               \<and> (\<forall>x\<in>set (butlast (execs new)). tolerated (snd x))
               \<and> (case snd (last (execs new)) of Inl m \<Rightarrow> e = PyException m
                   | Inr rc \<Rightarrow> e = SystemExit (exit_message (fst (last (execs new))) rc))) \<and>
     (\<forall>m. Print m \<in> set new \<longrightarrow> prefix ''Valgrind failed'' m)"
proof (induction ss arbitrary: hf tr r t)
  case Nil
  then show ?case by (auto simp: test_cmds_Nil)
next
  case (Cons x ss)
  obtain key s where x: "x = (key, s)" by (cases x)
  let ?c = "executeCmd w key s dl gf rf xf vg"
  let ?cwd = "getcwd w @ ''/'' @ od"
  obtain r1 t1 where run: "runcmd w ?c ?cwd rf True tr = (r1, t1)" by (cases "runcmd w ?c ?cwd rf True tr")
  show ?case
  proof (cases r1)
    case (Inl e)
    from runcmd_Inl[OF run[unfolded Inl] ] have
      nt: "\<not> tolerated (subprocess_run w tr ?c)" and
      t1: "t1 = tr @ [Exec ?c ?cwd rf True (subprocess_run w tr ?c)]" and
      e: "(case subprocess_run w tr ?c of Inl m \<Rightarrow> e = PyException m | Inr rc \<Rightarrow> e = SystemExit (exit_message ?c rc))"
      by auto
    from Cons.prems run have "r = Inl e" "t = t1"
      by (auto simp: x runcmd_results_eq Inl)
    then show ?thesis using nt t1 e
      by (auto simp: x test_cmds_Cons split: sum.splits)
  next
    case (Inr st)
    from runcmd_Inr[OF run[unfolded Inr] ] have
      tol: "tolerated (subprocess_run w tr ?c)" and
      rc: "subprocess_run w tr ?c = Inr (returncode st)" and
      t1: "t1 = tr @ [Exec ?c ?cwd rf True (Inr (returncode st))]"
      by auto
    from tol rc have rc01: "returncode st = 0 \<or> returncode st = valgrindErrorCode" by simp
    define hf' where "hf' = (if returncode st = valgrindErrorCode then True else hf)"
    define t2 where "t2 = (if returncode st = valgrindErrorCode
        then t1 @ [Print (''Valgrind failed for suite '' @ [CHR 0x27] @ key @ [CHR 0x27])] else t1)"
    from Cons.prems rc01 run have rest: "runTests_loop w ss dl gf od rf xf vg hf' t2 = (r, t)"
      by (auto simp: x runcmd_results_eq Inr hf'_def t2_def split: if_splits)
    from Cons.IH[OF rest] obtain new where
      new: "t = t2 @ new" and
      pre: "prefix (map fst (execs new)) (test_cmds w ss dl gf rf xf vg)" and
      res: "(case r of
        Inr h \<Rightarrow> map fst (execs new) = test_cmds w ss dl gf rf xf vg
               \<and> (\<forall>x\<in>set (execs new). tolerated (snd x))
               \<and> (h \<longleftrightarrow> hf' \<or> (\<exists>x\<in>set (execs new). snd x = Inr valgrindErrorCode))
      | Inl e \<Rightarrow> execs new \<noteq> [] \<and> \<not> tolerated (snd (last (execs new)))
               \<and> (\<forall>x\<in>set (butlast (execs new)). tolerated (snd x))
               \<and> (case snd (last (execs new)) of Inl m \<Rightarrow> e = PyException m
                   | Inr rc \<Rightarrow> e = SystemExit (exit_message (fst (last (execs new))) rc)))" and
      pr: "\<forall>m. Print m \<in> set new \<longrightarrow> prefix ''Valgrind failed'' m"
      by blast
    define ev where "ev = (if returncode st = valgrindErrorCode
        then [Exec ?c ?cwd rf True (Inr (returncode st)),
              Print (''Valgrind failed for suite '' @ [CHR 0x27] @ key @ [CHR 0x27])]
        else [Exec ?c ?cwd rf True (Inr (returncode st))])"
    have t: "t = tr @ (ev @ new)" by (simp add: new t2_def t1 ev_def)
    have ex: "execs (ev @ new) = (?c, Inr (returncode st)) # execs new"
      by (simp add: ev_def execs_append)
    have pr': "\<forall>m. Print m \<in> set (ev @ new) \<longrightarrow> prefix ''Valgrind failed'' m"
      using pr by (auto simp: ev_def)
    have pre': "prefix (map fst (execs (ev @ new))) (test_cmds w (x # ss) dl gf rf xf vg)"
      using pre by (simp add: ex x test_cmds_Cons)
    have res': "(case r of
        Inr h \<Rightarrow> map fst (execs (ev @ new)) = test_cmds w (x # ss) dl gf rf xf vg
               \<and> (\<forall>x\<in>set (execs (ev @ new)). tolerated (snd x))
               \<and> (h \<longleftrightarrow> hf \<or> (\<exists>x\<in>set (execs (ev @ new)). snd x = Inr valgrindErrorCode))
      | Inl e \<Rightarrow> execs (ev @ new) \<noteq> [] \<and> \<not> tolerated (snd (last (execs (ev @ new))))
               \<and> (\<forall>x\<in>set (butlast (execs (ev @ new))). tolerated (snd x))
               \<and> (case snd (last (execs (ev @ new))) of Inl m \<Rightarrow> e = PyException m
                   | Inr rc \<Rightarrow> e = SystemExit (exit_message (fst (last (execs (ev @ new)))) rc)))"
    proof (cases r)
      case (Inl e)
      with res have ne: "execs new \<noteq> []" by simp
      then have la: "last (execs (ev @ new)) = last (execs new)" by (simp add: ex)
      from ne have bl: "butlast (execs (ev @ new)) = (?c, Inr (returncode st)) # butlast (execs new)"
        by (simp add: ex)
      have ne': "execs (ev @ new) \<noteq> []" by (simp add: ex)
      from res rc01 ne' show ?thesis unfolding Inl la bl by auto
    next
      case (Inr h)
      with res rc01 show ?thesis by (auto simp: ex x test_cmds_Cons hf'_def split: if_splits)
    qed
    from t pre' res' pr' show ?thesis by blast
  qed
qed


lemma loop_cmds_subset:
  "set (map fst (execs (new_events tr (snd (runTests_loop w ss dl gf od rf xf vg hf tr)))))
     \<subseteq> set (test_cmds w ss dl gf rf xf vg)"
proof -
  obtain r t where run: "runTests_loop w ss dl gf od rf xf vg hf tr = (r, t)"
    by (cases "runTests_loop w ss dl gf od rf xf vg hf tr")
  from loop_spec[OF run] obtain new where
    "t = tr @ new" "prefix (map fst (execs new)) (test_cmds w ss dl gf rf xf vg)" by blast
  then show ?thesis
    using set_mono_prefix by (fastforce simp: run new_events_append)
qed

lemma executeCmd_no_gtest_output:
  "vg \<Longrightarrow> a \<in> set (executeCmd w key s dl gf rf xf vg) \<Longrightarrow> \<not> prefix ''--gtest_output=xml:'' a"
  by (auto simp: executeCmd_def AddValgrind_def split: if_splits option.splits)

lemma valgrind_not_command: "prefix ''Valgrind failed'' m \<Longrightarrow> \<not> prefix ''Command failed'' m"
  by (auto simp: prefix_def)

lemma gst_loop_101:
  "runTests_loop (world_exit gst_binary 101) suitesToRun False None ''build'' None None False False []
     = (Inr True, [Exec [gst_binary] ''/work/build'' None True (Inr 101),
                   Print (''Valgrind failed for suite '' @ [CHR 0x27] @ ''gst'' @ [CHR 0x27])])"
  by (simp add: suitesToRun_def runcmd_results_def runcmd_def executeCmd_def world_exit_def world_ok_def
      valgrindErrorCode_def gst_binary_def)

lemma loop_step_memcheck:
  "subprocess_run w t (executeCmd w key s dl gf rf xf vg) = Inr valgrindErrorCode \<Longrightarrow>
   runTests_loop w ((key, s) # post) dl gf od rf xf vg hf t
     = runTests_loop w post dl gf od rf xf vg True
         (t @ [Exec (executeCmd w key s dl gf rf xf vg) (getcwd w @ ''/'' @ od) rf True (Inr valgrindErrorCode),
               Print (''Valgrind failed for suite '' @ [CHR 0x27] @ key @ [CHR 0x27])])"
  by (simp add: runcmd_results_eq runcmd_def)

lemma loop_step_exit:
  "subprocess_run w t (executeCmd w key s dl gf rf xf vg) = Inr rc \<Longrightarrow> rc \<noteq> 0 \<Longrightarrow>
   rc \<noteq> valgrindErrorCode \<Longrightarrow>
   runTests_loop w ((key, s) # post) dl gf od rf xf vg hf t
     = (Inl (SystemExit (exit_message (executeCmd w key s dl gf rf xf vg) rc)),
        t @ [Exec (executeCmd w key s dl gf rf xf vg) (getcwd w @ ''/'' @ od) rf True (Inr rc)])"
  by (simp add: runcmd_results_eq runcmd_def)

lemma runTests_after_failed:
  "runTests_loop w ss dl gf od rf xf vg False tr = runTests_loop w post dl gf od rf xf vg True t' \<Longrightarrow>
   is_abort (fst (runTests w ss dl gf od rf xf vg cov tr))"
proof -
  assume eq: "runTests_loop w ss dl gf od rf xf vg False tr = runTests_loop w post dl gf od rf xf vg True t'"
  obtain r t where run: "runTests_loop w post dl gf od rf xf vg True t' = (r, t)"
    by (cases "runTests_loop w post dl gf od rf xf vg True t'")
  show ?thesis
  proof (cases r)
    case (Inl e)
    then show ?thesis by (simp add: runTests_def eq run)
  next
    case (Inr h)
    with run loop_failed_stays have h by blast
    with Inr show ?thesis by (simp add: runTests_def eq run)
  qed
qed

lemma gst_cmd_plain:
  "executeCmd w ''gst'' gst_suite False None None None False = [gst_binary]"
  by (simp add: executeCmd_def gst_suite_def gst_binary_def)

lemma runcmd_eq:
  "runcmd w c cwd out err tr =
     ((if tolerated (subprocess_run w tr c)
       then Inr \<lparr>args = c, returncode = projr (subprocess_run w tr c)\<rparr>
       else Inl (abort_of c (subprocess_run w tr c))),
      tr @ [Exec c cwd out err (subprocess_run w tr c)])"
  by (cases "subprocess_run w tr c") (simp_all add: runcmd_def)

text \<open>\<^verbatim>\<open>buildTargets\<close>\<close>

lemma buildTargets_cmake_fails:
  "\<not> tolerated (subprocess_run w tr (cmakeCmd od cov br)) \<Longrightarrow>
   buildTargets w ss od rf dbg cov br tr =
     (Inl (abort_of (cmakeCmd od cov br) (subprocess_run w tr (cmakeCmd od cov br))),
      tr @ [Exec (cmakeCmd od cov br) (getcwd w) None False (subprocess_run w tr (cmakeCmd od cov br))])"
  by (simp add: buildTargets_def runcmd_eq)

lemma buildTargets_cmake_ok:
  assumes "tolerated (subprocess_run w tr (cmakeCmd od cov br))"
    and "t' = tr @ [Exec (cmakeCmd od cov br) (getcwd w) None False (subprocess_run w tr (cmakeCmd od cov br)),
                    Print (''+ '' @ join_sp (makeCmd w ss))]"
  shows "buildTargets w ss od rf dbg cov br tr =
     ((if tolerated (subprocess_run w t' (makeCmd w ss)) then Inr ()
       else Inl (abort_of (makeCmd w ss) (subprocess_run w t' (makeCmd w ss)))),
      t' @ [Exec (makeCmd w ss) (getcwd w @ ''/'' @ od) rf (rf \<noteq> None) (subprocess_run w t' (makeCmd w ss))])"
  using assms by (cases rf) (simp_all add: buildTargets_def runcmd_eq Let_def)





lemma str_nat_8: "str_nat 8 = ''8''"
  by (simp add: str_nat.simps digit_char_def)

lemma main_build_abort:
  "\<not> arg_noBuild a \<Longrightarrow> main_clean w a (tr @ [SetEnv ''RIALTO_SINKS_RANK'' ''256'']) = (Inr u, t1) \<Longrightarrow>
   main_file w a t1 = (Inr f, t2) \<Longrightarrow>
   buildTargets w suitesToRun (arg_output a) f (arg_valgrind a) (arg_coverage a) (arg_branch a) t2 = (Inl e, t) \<Longrightarrow>
   main w a tr = (Inl e, t)"
  by (simp add: main_def)

lemma no_flags_setup:
  "main_clean w no_flags tr = (Inr (), tr)" "main_file w no_flags tr = (Inr None, tr)"
  "\<not> arg_noBuild no_flags" "arg_output no_flags = ''build''" "\<not> arg_valgrind no_flags"
  "\<not> arg_coverage no_flags" "arg_branch no_flags = []"
  by (simp_all add: main_clean_def main_file_def no_flags_def)

lemma world_exit_sel:
  "subprocess_run (world_exit p rc) tr c = (if take 1 c = [p] then Inr rc else Inr 0)"
  "getcwd (world_exit p rc) = ''/work''" "cpu_count (world_exit p rc) = 8"
  "script_dir (world_exit p rc) = ''/work''" "open_raises (world_exit p rc) n = None"
  by (simp_all add: world_exit_def world_ok_def)

lemma join_make: "join_sp (makeCmd (world_exit p rc) suitesToRun) = ''make -j8 GstRialtoUnitTests''"
  by (simp add: makeCmd_def suitesToRun_def world_exit_sel str_nat_8)

text \<open>\<^verbatim>\<open>generateCoverageReport\<close>\<close>

lemma gen_spec:
  assumes "generateCoverageReport w od rf tr = (r, t)"
  shows "\<exists>new. t = tr @ new \<and>
     prefix (map fst (execs new)) coverage_cmds \<and>
     (\<forall>x\<in>set (butlast (execs new)). tolerated (snd x)) \<and>
     (case r of
        Inr v \<Rightarrow> truthy v \<and> map fst (execs new) = coverage_cmds \<and> tolerated (snd (last (execs new)))
      | Inl e \<Rightarrow> execs new \<noteq> [] \<and>
          (if tolerated (snd (last (execs new)))
           then map fst (execs new) = take 4 coverage_cmds \<and>
                (\<exists>f. open_raises w f = Some (case e of PyException m \<Rightarrow> m | SystemExit m \<Rightarrow> m)
                     \<and> e = PyException (case e of PyException m \<Rightarrow> m | SystemExit m \<Rightarrow> m))
           else e = abort_of (fst (last (execs new))) (snd (last (execs new)))))"
  using assms
  unfolding generateCoverageReport_def runcmd_results_eq runcmd_eq Let_def file_truthy_def py_and_def
    coverage_cmds_def
  by (auto split: if_splits option.splits)

lemma coverage_heads:
  "take (Suc 0) lcovBaseCmd = [''lcov'']" "take (Suc 0) lcovTestCmd = [''lcov'']"
  "take (Suc 0) lcovCombineCmd = [''lcov'']" "take (Suc 0) genHtmlCmd = [''genhtml'']"
  "take (Suc 0) genStatsCmd = [''lcov'']"
  by (simp_all add: lcovBaseCmd_def lcovTestCmd_def lcovCombineCmd_def genHtmlCmd_def genStatsCmd_def)

lemma gen_genhtml_3:
  "generateCoverageReport (world_exit ''genhtml'' 3) ''build'' None []
     = (Inl (SystemExit (exit_message genHtmlCmd 3)),
        [Exec lcovBaseCmd ''/work/build'' None True (Inr 0),
         Exec lcovTestCmd ''/work/build'' None True (Inr 0),
         Exec lcovCombineCmd ''/work/build'' None True (Inr 0),
         Exec genHtmlCmd ''/work/build'' None True (Inr 3)])"
  unfolding generateCoverageReport_def runcmd_results_eq runcmd_eq Let_def
  by (simp add: world_exit_sel coverage_heads valgrindErrorCode_def)

text \<open>\<^verbatim>\<open>runTests\<close> after its loop.\<close>

lemma executeCmd_not_coverage: "executeCmd w k s dl gf rf xf vg \<notin> set coverage_cmds"
proof (cases vg)
  case True
  then show ?thesis
    by (simp add: executeCmd_def AddValgrind_def coverage_cmds_def lcovBaseCmd_def lcovTestCmd_def
      lcovCombineCmd_def genHtmlCmd_def genStatsCmd_def)
next
  case False
  then show ?thesis
    by (simp add: executeCmd_def coverage_cmds_def lcovBaseCmd_def lcovTestCmd_def
      lcovCombineCmd_def genHtmlCmd_def genStatsCmd_def)
qed

lemma test_cmds_not_coverage:
  "c \<in> set (test_cmds w ss dl gf rf xf vg) \<Longrightarrow> c \<notin> set coverage_cmds"
  using executeCmd_not_coverage by (auto simp: test_cmds_def)

lemma runTests_loop_abort:
  "runTests_loop w ss dl gf od rf xf vg False tr = (Inl e, t1) \<Longrightarrow>
   runTests w ss dl gf od rf xf vg cov tr = (Inl e, t1)"
  by (simp add: runTests_def)

lemma runTests_loop_failed:
  "runTests_loop w ss dl gf od rf xf vg False tr = (Inr True, t1) \<Longrightarrow>
   runTests w ss dl gf od rf xf vg cov tr = (Inl aggregate_failure, t1)"
  by (simp add: runTests_def)

lemma runTests_loop_passed:
  "runTests_loop w ss dl gf od rf xf vg False tr = (Inr False, t1) \<Longrightarrow>
   runTests w ss dl gf od rf xf vg cov tr =
     (if cov then (case generateCoverageReport w od rf t1 of
                     (Inl e, t') \<Rightarrow> (Inl e, t') | (Inr v, t') \<Rightarrow> (Inr (), t'))
      else (Inr (), t1))"
  by (simp add: runTests_def)


lemma tolerated_cases: "tolerated x \<Longrightarrow> x \<noteq> Inr valgrindErrorCode \<Longrightarrow> x = Inr 0"
  by (cases x) auto

lemma two_suites_cmds:
  "test_cmds w two_suites False None None None False = [ [gst_binary], [''./tests/ut/ExtraUnitTests''] ]"
  by (simp add: test_cmds_def two_suites_def executeCmd_def gst_suite_def gst_binary_def)

lemma two_suites_memcheck_run:
  "runTests (world_exit gst_binary 101) two_suites False None ''build'' None None False True []
     = (Inl aggregate_failure,
        [Exec [gst_binary] ''/work/build'' None True (Inr 101),
         Print (''Valgrind failed for suite '' @ [CHR 0x27] @ ''gst'' @ [CHR 0x27]),
         Exec [''./tests/ut/ExtraUnitTests''] ''/work/build'' None True (Inr 0)])"
  by (simp add: runTests_def two_suites_def runcmd_results_def runcmd_def executeCmd_def gst_suite_def
      gst_binary_def world_exit_sel valgrindErrorCode_def)

text \<open>The clean stage.\<close>

lemma try_raises_exception:
  "checkAndRemoveFiles_try w tr = (Inl e, t) \<Longrightarrow> \<exists>m. e = PyException m"
  by (auto simp: checkAndRemoveFiles_try_def Let_def split: if_splits option.splits)

lemma try_no_exec:
  "\<exists>ev. snd (checkAndRemoveFiles_try w tr) = tr @ ev \<and> execs ev = []"
  by (auto simp: checkAndRemoveFiles_try_def Let_def split: if_splits option.splits)

lemma checkAndRemoveFiles_returns:
  "\<exists>ev. checkAndRemoveFiles w tr = (Inr (), tr @ ev) \<and> execs ev = []"
proof -
  obtain r t where tr: "checkAndRemoveFiles_try w tr = (r, t)"
    by (cases "checkAndRemoveFiles_try w tr")
  from try_no_exec[of w tr] tr obtain ev where ev: "t = tr @ ev" "execs ev = []" by auto
  show ?thesis
  proof (cases r)
    case (Inl e)
    with try_raises_exception tr obtain m where "e = PyException m" by blast
    with Inl tr ev show ?thesis
      by (simp add: checkAndRemoveFiles_def execs_append)
  next
    case (Inr u)
    with tr ev show ?thesis by (simp add: checkAndRemoveFiles_def)
  qed
qed

lemma main_clean_abort:
  "main_clean w a (tr @ [SetEnv ''RIALTO_SINKS_RANK'' ''256'']) = (Inl e, t) \<Longrightarrow> main w a tr = (Inl e, t)"
  by (simp add: main_def)

lemma rmtree_raises_run:
  "checkAndRemoveFiles world_rmtree_raises []
     = (Inr (), [Print (''Removing files within: '' @ includeDirs), RmTree includeDirs,
                 Print ''An error occurred: Permission denied''])"
  by (simp add: checkAndRemoveFiles_def checkAndRemoveFiles_try_def world_rmtree_raises_def world_ok_def)

text \<open>The stages of \<^verbatim>\<open>main\<close>.\<close>

lemma clean_tool_only: "clean_tool c \<Longrightarrow> \<not> build_tool c \<and> \<not> test_invocation c"
  by (auto simp: clean_tool_def build_tool_def test_invocation_def suitesToRun_def)

lemma build_tool_only: "build_tool c \<Longrightarrow> \<not> clean_tool c \<and> \<not> test_invocation c"
  by (auto simp: clean_tool_def build_tool_def test_invocation_def suitesToRun_def)

lemma tool_cleanCmd: "clean_tool (cleanCmd a)"
  by (simp add: clean_tool_def cleanCmd_def)

lemma tool_cmakeCmd: "build_tool (cmakeCmd od cov br)"
  by (simp add: build_tool_def cmakeCmd_def)

lemma tool_makeCmd: "build_tool (makeCmd w ss)"
  by (simp add: build_tool_def makeCmd_def)

lemma tool_executeCmd:
  "test_invocation (executeCmd w ''gst'' \<lparr>suite = ''GstRialtoUnitTests'', path = ''/tests/ut/''\<rparr> dl gf rf xf vg)"
  "\<not> build_tool (executeCmd w key s dl gf rf xf vg)"
  "\<not> clean_tool (executeCmd w key s dl gf rf xf vg)"
  by (cases vg; simp add: test_invocation_def build_tool_def clean_tool_def executeCmd_def
      AddValgrind_def suitesToRun_def)+

lemma tool_coverage: "c \<in> set coverage_cmds \<Longrightarrow> \<not> build_tool c \<and> \<not> clean_tool c"
  by (auto simp: coverage_cmds_def build_tool_def clean_tool_def lcovBaseCmd_def lcovTestCmd_def
      lcovCombineCmd_def genHtmlCmd_def genStatsCmd_def)

lemma tool_test_cmds: "c \<in> set (test_cmds w ss dl gf rf xf vg) \<Longrightarrow> \<not> build_tool c \<and> \<not> clean_tool c"
  using tool_executeCmd(2,3) by (auto simp: test_cmds_def)

lemma clean_spec:
  assumes "main_clean w a tr = (r, t)"
  shows "\<exists>ev. t = tr @ ev \<and> (\<forall>x\<in>set (execs ev). clean_tool (fst x)) \<and>
     (is_abort r \<longrightarrow> (\<exists>x\<in>set (execs ev). \<not> tolerated (snd x)))"
proof (cases "arg_clean a")
  case False
  with assms show ?thesis by (auto simp: main_clean_def)
next
  case True
  from checkAndRemoveFiles_returns obtain ev where
    c: "checkAndRemoveFiles w tr = (Inr (), tr @ ev)" and e: "execs ev = []" by blast
  let ?res = "subprocess_run w (tr @ ev) (cleanCmd a)"
  from assms True have r: "r = (if tolerated ?res then Inr () else Inl (abort_of (cleanCmd a) ?res))"
    and t: "t = tr @ (ev @ [Exec (cleanCmd a) (getcwd w) None False ?res])"
    unfolding main_clean_def c runcmd_eq by (simp_all split: if_splits)
  have ex: "execs (ev @ [Exec (cleanCmd a) (getcwd w) None False ?res]) = [(cleanCmd a, ?res)]"
    by (simp add: execs_append e)
  show ?thesis
    by (rule exI[of _ "ev @ [Exec (cleanCmd a) (getcwd w) None False ?res]"])
       (simp add: t ex tool_cleanCmd r)
qed

lemma file_spec:
  assumes "main_file w a tr = (r, t)"
  shows "\<exists>ev. t = tr @ ev \<and> execs ev = [] \<and> (is_abort r \<longrightarrow> \<not> log_opens w a)"
  using assms
  by (auto simp: main_file_def log_opens_def Let_def split: option.splits if_splits)

lemma build_spec:
  assumes "buildTargets w ss od rf dbg cov br tr = (r, t)"
  shows "\<exists>ev. t = tr @ ev \<and> execs ev \<noteq> [] \<and> (\<forall>x\<in>set (execs ev). build_tool (fst x)) \<and>
     (is_abort r \<longrightarrow> (\<exists>x\<in>set (execs ev). \<not> tolerated (snd x)))"
proof (cases "tolerated (subprocess_run w tr (cmakeCmd od cov br))")
  case False
  from assms show ?thesis
    unfolding buildTargets_cmake_fails[OF False] using False by (auto simp: tool_cmakeCmd)
next
  case True
  from assms show ?thesis
    unfolding buildTargets_cmake_ok[OF True refl]
    by (auto simp: tool_cmakeCmd tool_makeCmd split: if_splits)
qed


lemma suitesToRun_cmds:
  "test_cmds w suitesToRun dl gf rf xf vg
     = [executeCmd w ''gst'' \<lparr>suite = ''GstRialtoUnitTests'', path = ''/tests/ut/''\<rparr> dl gf rf xf vg]"
  by (simp add: test_cmds_def suitesToRun_def)

lemma test_spec:
  assumes run: "runTests w suitesToRun dl gf od rf xf vg cov tr = (r, t)"
  shows "\<exists>ev. t = tr @ ev \<and> (\<exists>x\<in>set (execs ev). test_invocation (fst x)) \<and>
     (\<forall>x\<in>set (execs ev). \<not> build_tool (fst x) \<and> \<not> clean_tool (fst x))"
proof -
  let ?T = "test_cmds w suitesToRun dl gf rf xf vg"
  let ?c = "executeCmd w ''gst'' \<lparr>suite = ''GstRialtoUnitTests'', path = ''/tests/ut/''\<rparr> dl gf rf xf vg"
  obtain r1 t1 where loop: "runTests_loop w suitesToRun dl gf od rf xf vg False tr = (r1, t1)"
    by (cases "runTests_loop w suitesToRun dl gf od rf xf vg False tr")
  from loop_spec[OF loop] obtain new where
    t1: "t1 = tr @ new" and
    pre: "prefix (map fst (execs new)) ?T" and
    res: "(case r1 of
        Inr h \<Rightarrow> map fst (execs new) = ?T
               \<and> (\<forall>x\<in>set (execs new). tolerated (snd x))
               \<and> (h \<longleftrightarrow> False \<or> (\<exists>x\<in>set (execs new). snd x = Inr valgrindErrorCode))
      | Inl e \<Rightarrow> execs new \<noteq> [] \<and> \<not> tolerated (snd (last (execs new)))
               \<and> (\<forall>x\<in>set (butlast (execs new)). tolerated (snd x))
               \<and> (case snd (last (execs new)) of Inl m \<Rightarrow> e = PyException m
                   | Inr rc \<Rightarrow> e = SystemExit (exit_message (fst (last (execs new))) rc)))"
    by blast
  have ne: "execs new \<noteq> []" using res by (cases r1) (auto simp: suitesToRun_cmds)
  from pre have sub: "set (map fst (execs new)) \<subseteq> set ?T" by (rule set_mono_prefix)
  from ne obtain x where x: "x \<in> set (execs new)" by (cases "execs new") auto
  with sub have "fst x \<in> set ?T" by auto
  then have "fst x = ?c" by (simp add: suitesToRun_cmds)
  with tool_executeCmd(1) have ti: "test_invocation (fst x)" by simp
  have nb: "\<forall>x\<in>set (execs new). \<not> build_tool (fst x) \<and> \<not> clean_tool (fst x)"
    using sub tool_test_cmds by fastforce
  have "\<exists>more. t = t1 @ more \<and> set (map fst (execs more)) \<subseteq> set coverage_cmds"
  proof (cases r1)
    case (Inl e)
    from loop have "runTests w suitesToRun dl gf od rf xf vg cov tr = (Inl e, t1)"
      unfolding Inl by (rule runTests_loop_abort)
    with run show ?thesis by simp
  next
    case (Inr h)
    show ?thesis
    proof (cases h)
      case True
      from loop Inr True have "runTests_loop w suitesToRun dl gf od rf xf vg False tr = (Inr True, t1)"
        by simp
      then have "runTests w suitesToRun dl gf od rf xf vg cov tr = (Inl aggregate_failure, t1)"
        by (rule runTests_loop_failed)
      with run show ?thesis by simp
    next
      case False
      from loop Inr False have "runTests_loop w suitesToRun dl gf od rf xf vg False tr = (Inr False, t1)"
        by simp
      then have rt: "runTests w suitesToRun dl gf od rf xf vg cov tr =
         (if cov then (case generateCoverageReport w od rf t1 of
                     (Inl e, t') \<Rightarrow> (Inl e, t') | (Inr v, t') \<Rightarrow> (Inr (), t'))
          else (Inr (), t1))"
        by (rule runTests_loop_passed)
      show ?thesis
      proof (cases cov)
        case c: False
        with rt run have "t = t1" by simp
        then show ?thesis by simp
      next
        case c: True
        obtain r2 t2 where gen: "generateCoverageReport w od rf t1 = (r2, t2)"
          by (cases "generateCoverageReport w od rf t1")
        from gen_spec[OF gen] obtain more where
          t2: "t2 = t1 @ more" and pm: "prefix (map fst (execs more)) coverage_cmds" by blast
        from c rt run gen have "t = t2" by (cases r2) simp_all
        with t2 set_mono_prefix[OF pm] show ?thesis by blast
      qed
    qed
  qed
  then obtain more where t: "t = t1 @ more"
    and sm: "set (map fst (execs more)) \<subseteq> set coverage_cmds" by blast
  have nbm: "\<forall>x\<in>set (execs more). \<not> build_tool (fst x) \<and> \<not> clean_tool (fst x)"
    using sm tool_coverage by fastforce
  have tt: "t = tr @ (new @ more)" by (simp add: t t1)
  have e1: "\<exists>x\<in>set (execs (new @ more)). test_invocation (fst x)"
    using x ti by (auto simp: execs_append)
  have e2: "\<forall>x\<in>set (execs (new @ more)). \<not> build_tool (fst x) \<and> \<not> clean_tool (fst x)"
    using nb nbm by (auto simp: execs_append)
  from tt e1 e2 show ?thesis by blast
qed


lemma main_file_abort:
  "main_clean w a (tr @ [SetEnv ''RIALTO_SINKS_RANK'' ''256'']) = (Inr u, t1) \<Longrightarrow>
   main_file w a t1 = (Inl e, t2) \<Longrightarrow> main w a tr = (Inl e, t2)"
  by (simp add: main_def)

lemma main_after_build:
  "main_clean w a (tr @ [SetEnv ''RIALTO_SINKS_RANK'' ''256'']) = (Inr u, t1) \<Longrightarrow>
   main_file w a t1 = (Inr f, t2) \<Longrightarrow>
   (if \<not> arg_noBuild a
    then buildTargets w suitesToRun (arg_output a) f (arg_valgrind a) (arg_coverage a) (arg_branch a) t2
    else (Inr (), t2)) = (Inr u', t3) \<Longrightarrow>
   main w a tr =
     (if \<not> arg_noTest a
      then runTests w suitesToRun (arg_listTests a) (arg_googletestFilter a) (arg_output a) f
             (main_xml a) (arg_valgrind a) (arg_coverage a) t3
      else (Inr (), t3))"
  by (simp add: main_def)

lemma main_decomp:
  assumes run: "main w a tr = (r, t)"
  shows "\<exists>C B T. execs (new_events tr t) = C @ B @ T \<and>
      (\<forall>x\<in>set C. clean_tool (fst x)) \<and> (\<forall>x\<in>set B. build_tool (fst x)) \<and>
      (\<forall>x\<in>set T. \<not> build_tool (fst x) \<and> \<not> clean_tool (fst x)) \<and>
      (arg_noBuild a \<longrightarrow> B = []) \<and> (arg_noTest a \<longrightarrow> T = []) \<and>
      (T \<noteq> [] \<longrightarrow> (\<exists>x\<in>set T. test_invocation (fst x))) \<and>
      (\<not> arg_noBuild a \<and> (\<forall>x\<in>set C. tolerated (snd x)) \<and> log_opens w a \<longrightarrow> B \<noteq> []) \<and>
      (\<not> arg_noTest a \<and> (\<forall>x\<in>set C. tolerated (snd x)) \<and> log_opens w a
         \<and> (\<forall>x\<in>set B. tolerated (snd x)) \<longrightarrow> T \<noteq> [])"
proof -
  let ?tr0 = "tr @ [SetEnv ''RIALTO_SINKS_RANK'' ''256'']"
  obtain r1 t1 where cl: "main_clean w a ?tr0 = (r1, t1)" by (cases "main_clean w a ?tr0")
  from clean_spec[OF cl] obtain ev1 where
    t1: "t1 = ?tr0 @ ev1" and c1: "\<forall>x\<in>set (execs ev1). clean_tool (fst x)"
    and a1: "is_abort r1 \<longrightarrow> (\<exists>x\<in>set (execs ev1). \<not> tolerated (snd x))" by blast
  show ?thesis
  proof (cases r1)
    case (Inl e)
    from cl have "main w a tr = (Inl e, t1)" unfolding Inl by (rule main_clean_abort)
    with run have t: "t = t1" by simp
    have X: "execs (new_events tr t) = execs ev1 @ [] @ []"
      by (simp add: t t1 new_events_def execs_append)
    from a1 Inl have bad: "\<exists>x\<in>set (execs ev1). \<not> tolerated (snd x)" by simp
    show ?thesis
      by (rule exI[of _ "execs ev1"], rule exI[of _ "[]"], rule exI[of _ "[]"])
         (use X c1 bad in auto)
  next
    case (Inr u)
    note r1 = Inr
    obtain r2 t2 where fl: "main_file w a t1 = (r2, t2)" by (cases "main_file w a t1")
    from file_spec[OF fl] obtain ev2 where
      t2: "t2 = t1 @ ev2" and c2: "execs ev2 = []" and a2: "is_abort r2 \<longrightarrow> \<not> log_opens w a" by blast
    show ?thesis
    proof (cases r2)
      case (Inl e)
      from cl fl have "main w a tr = (Inl e, t2)" unfolding r1 Inl by (rule main_file_abort)
      with run have t: "t = t2" by simp
      have X: "execs (new_events tr t) = execs ev1 @ [] @ []"
        by (simp add: t t2 t1 new_events_def execs_append c2)
      from a2 Inl have bad: "\<not> log_opens w a" by simp
      show ?thesis
        by (rule exI[of _ "execs ev1"], rule exI[of _ "[]"], rule exI[of _ "[]"])
           (use X c1 bad in auto)
    next
      case (Inr f)
      note r2 = Inr
      let ?b = "(if \<not> arg_noBuild a
          then buildTargets w suitesToRun (arg_output a) f (arg_valgrind a) (arg_coverage a) (arg_branch a) t2
          else (Inr (), t2))"
      obtain r3 t3 where bd: "?b = (r3, t3)" by (cases ?b)
      have "\<exists>ev3. t3 = t2 @ ev3 \<and> (\<forall>x\<in>set (execs ev3). build_tool (fst x)) \<and>
          (arg_noBuild a \<longrightarrow> execs ev3 = []) \<and> (\<not> arg_noBuild a \<longrightarrow> execs ev3 \<noteq> []) \<and>
          (is_abort r3 \<longrightarrow> \<not> arg_noBuild a \<and> (\<exists>x\<in>set (execs ev3). \<not> tolerated (snd x)))"
      proof (cases "arg_noBuild a")
        case True
        with bd have "r3 = Inr ()" "t3 = t2" by simp_all
        with True show ?thesis by simp
      next
        case False
        with bd have "buildTargets w suitesToRun (arg_output a) f (arg_valgrind a) (arg_coverage a)
            (arg_branch a) t2 = (r3, t3)" by simp
        from build_spec[OF this] False show ?thesis by blast
      qed
      then obtain ev3 where t3: "t3 = t2 @ ev3" and c3: "\<forall>x\<in>set (execs ev3). build_tool (fst x)"
        and nb3: "arg_noBuild a \<longrightarrow> execs ev3 = []" and b3: "\<not> arg_noBuild a \<longrightarrow> execs ev3 \<noteq> []"
        and a3: "is_abort r3 \<longrightarrow> \<not> arg_noBuild a \<and> (\<exists>x\<in>set (execs ev3). \<not> tolerated (snd x))"
        by blast
      show ?thesis
      proof (cases r3)
        case (Inl e)
        with a3 have nb: "\<not> arg_noBuild a" and bad: "\<exists>x\<in>set (execs ev3). \<not> tolerated (snd x)"
          by simp_all
        from bd nb Inl have "buildTargets w suitesToRun (arg_output a) f (arg_valgrind a) (arg_coverage a)
            (arg_branch a) t2 = (Inl e, t3)" by simp
        with nb cl fl have "main w a tr = (Inl e, t3)"
          unfolding r1 r2 using main_build_abort by blast
        with run have t: "t = t3" by simp
        have X: "execs (new_events tr t) = execs ev1 @ execs ev3 @ []"
          by (simp add: t t3 t2 t1 new_events_def execs_append c2)
        show ?thesis
          by (rule exI[of _ "execs ev1"], rule exI[of _ "execs ev3"], rule exI[of _ "[]"])
             (use X c1 c3 bad nb b3 in auto)
      next
        case (Inr u')
        from cl fl bd have m: "main w a tr =
          (if \<not> arg_noTest a
           then runTests w suitesToRun (arg_listTests a) (arg_googletestFilter a) (arg_output a) f
             (main_xml a) (arg_valgrind a) (arg_coverage a) t3
           else (Inr (), t3))"
          unfolding r1 r2 Inr by (rule main_after_build)
        have "\<exists>ev4. t = t3 @ ev4 \<and> (\<forall>x\<in>set (execs ev4). \<not> build_tool (fst x) \<and> \<not> clean_tool (fst x)) \<and>
            (arg_noTest a \<longrightarrow> execs ev4 = []) \<and>
            (\<not> arg_noTest a \<longrightarrow> (\<exists>x\<in>set (execs ev4). test_invocation (fst x)))"
        proof (cases "arg_noTest a")
          case True
          with m run have "t = t3" by simp
          with True show ?thesis by simp
        next
          case False
          with m run have "runTests w suitesToRun (arg_listTests a) (arg_googletestFilter a) (arg_output a) f
             (main_xml a) (arg_valgrind a) (arg_coverage a) t3 = (r, t)" by simp
          from test_spec[OF this] False show ?thesis by blast
        qed
        then obtain ev4 where t: "t = t3 @ ev4"
          and c4: "\<forall>x\<in>set (execs ev4). \<not> build_tool (fst x) \<and> \<not> clean_tool (fst x)"
          and nt4: "arg_noTest a \<longrightarrow> execs ev4 = []"
          and t4: "\<not> arg_noTest a \<longrightarrow> (\<exists>x\<in>set (execs ev4). test_invocation (fst x))" by blast
        have X: "execs (new_events tr t) = execs ev1 @ execs ev3 @ execs ev4"
          by (simp add: t t3 t2 t1 new_events_def execs_append c2)
        have ne4: "\<not> arg_noTest a \<longrightarrow> execs ev4 \<noteq> []" using t4 by auto
        have ti: "execs ev4 \<noteq> [] \<longrightarrow> (\<exists>x\<in>set (execs ev4). test_invocation (fst x))"
          using t4 nt4 by blast
        show ?thesis
          by (rule exI[of _ "execs ev1"], rule exI[of _ "execs ev3"], rule exI[of _ "execs ev4"])
             (use X c1 c3 c4 nb3 b3 nt4 ne4 ti in blast)
      qed
    qed
  qed
qed

lemma no_flags_run:
  "main world_ok no_flags []
     = (Inr (), [SetEnv ''RIALTO_SINKS_RANK'' ''256'',
                 Exec (cmakeCmd ''build'' False []) ''/work'' None False (Inr 0),
                 Print ''+ make -j8 GstRialtoUnitTests'',
                 Exec [''make'', ''-j8'', ''GstRialtoUnitTests''] ''/work/build'' None False (Inr 0),
                 Exec [gst_binary] ''/work/build'' None True (Inr 0)])"
  by (simp add: main_def main_clean_def main_file_def buildTargets_def runTests_def runcmd_results_def
      runcmd_def world_ok_def makeCmd_def suitesToRun_def str_nat_8
      valgrindErrorCode_def executeCmd_def gst_binary_def main_xml_def no_flags_def)

lemma no_build_run:
  "main world_ok no_build_flag []
     = (Inr (), [SetEnv ''RIALTO_SINKS_RANK'' ''256'',
                 Exec [gst_binary] ''/work/build'' None True (Inr 0)])"
  by (simp add: main_def main_clean_def main_file_def runTests_def runcmd_results_def
      runcmd_def world_ok_def suitesToRun_def no_build_flag_def
      valgrindErrorCode_def executeCmd_def gst_binary_def main_xml_def no_flags_def)

text \<open>How \<^verbatim>\<open>runTests\<close> ends after a test command has failed.\<close>

lemma runTests_failure_outcomes:
  assumes run: "runTests w ss dl gf od rf xf vg cov tr = (r, t)"
  shows "((\<exists>x\<in>set (execs (new_events tr t)).
              fst x \<in> set (test_cmds w ss dl gf rf xf vg) \<and> snd x \<noteq> Inr 0) \<longrightarrow>
            is_abort r \<and> set (map fst (execs (new_events tr t))) \<inter> set coverage_cmds = {})
       \<and> ((\<forall>x\<in>set (execs (new_events tr t)). tolerated (snd x)) \<and>
           (\<exists>x\<in>set (execs (new_events tr t)).
              fst x \<in> set (test_cmds w ss dl gf rf xf vg) \<and> snd x = Inr valgrindErrorCode) \<longrightarrow>
            r = Inl aggregate_failure \<and>
            map fst (execs (new_events tr t)) = test_cmds w ss dl gf rf xf vg)"
proof -
  let ?T = "test_cmds w ss dl gf rf xf vg"
  obtain r1 t1 where loop: "runTests_loop w ss dl gf od rf xf vg False tr = (r1, t1)"
    by (cases "runTests_loop w ss dl gf od rf xf vg False tr")
  from loop_spec[OF loop] obtain new where
    t1: "t1 = tr @ new" and
    pre: "prefix (map fst (execs new)) ?T" and
    res: "(case r1 of
        Inr h \<Rightarrow> map fst (execs new) = ?T
               \<and> (\<forall>x\<in>set (execs new). tolerated (snd x))
               \<and> (h \<longleftrightarrow> False \<or> (\<exists>x\<in>set (execs new). snd x = Inr valgrindErrorCode))
      | Inl e \<Rightarrow> execs new \<noteq> [] \<and> \<not> tolerated (snd (last (execs new)))
               \<and> (\<forall>x\<in>set (butlast (execs new)). tolerated (snd x))
               \<and> (case snd (last (execs new)) of Inl m \<Rightarrow> e = PyException m
                   | Inr rc \<Rightarrow> e = SystemExit (exit_message (fst (last (execs new))) rc)))"
    by blast
  from pre have sub: "set (map fst (execs new)) \<subseteq> set ?T" by (rule set_mono_prefix)
  have disj: "set (map fst (execs new)) \<inter> set coverage_cmds = {}"
    using sub test_cmds_not_coverage by blast
  show ?thesis
  proof (cases r1)
    case (Inl e)
    from loop have "runTests w ss dl gf od rf xf vg cov tr = (Inl e, t1)"
      unfolding Inl by (rule runTests_loop_abort)
    with run have r: "r = Inl e" and t: "t = t1" by simp_all
    have ne: "new_events tr t = new" by (simp add: t t1 new_events_append)
    from res Inl have nonempty: "execs new \<noteq> []" and bad: "\<not> tolerated (snd (last (execs new)))"
      by simp_all
    from nonempty have "last (execs new) \<in> set (execs new)" by simp
    with bad have notall: "\<not> (\<forall>x\<in>set (execs new). tolerated (snd x))" by blast
    have ab: "is_abort r" by (simp add: r)
    show ?thesis unfolding ne using ab disj notall by blast
  next
    case (Inr h)
    from res Inr have m: "map fst (execs new) = ?T"
      and tol: "\<forall>x\<in>set (execs new). tolerated (snd x)"
      and h: "h \<longleftrightarrow> (\<exists>x\<in>set (execs new). snd x = Inr valgrindErrorCode)"
      by simp_all
    show ?thesis
    proof (cases h)
      case True
      from loop Inr True have "runTests_loop w ss dl gf od rf xf vg False tr = (Inr True, t1)"
        by simp
      then have "runTests w ss dl gf od rf xf vg cov tr = (Inl aggregate_failure, t1)"
        by (rule runTests_loop_failed)
      with run have r: "r = Inl aggregate_failure" and t: "t = t1" by simp_all
      have ne: "new_events tr t = new" by (simp add: t t1 new_events_append)
      have ab: "is_abort r" by (simp add: r)
      show ?thesis unfolding ne using ab r disj m by blast
    next
      case False
      with h have no101: "\<forall>x\<in>set (execs new). snd x \<noteq> Inr valgrindErrorCode" by blast
      with tol have all0: "\<forall>x\<in>set (execs new). snd x = Inr 0"
        using tolerated_cases by blast
      from loop Inr False have "runTests_loop w ss dl gf od rf xf vg False tr = (Inr False, t1)"
        by simp
      then have rt: "runTests w ss dl gf od rf xf vg cov tr =
         (if cov then (case generateCoverageReport w od rf t1 of
                     (Inl e, t') \<Rightarrow> (Inl e, t') | (Inr v, t') \<Rightarrow> (Inr (), t'))
          else (Inr (), t1))"
        by (rule runTests_loop_passed)
      have "\<exists>more. t = t1 @ more \<and> prefix (map fst (execs more)) coverage_cmds"
      proof (cases cov)
        case c: False
        with rt run have "t = t1" by simp
        then show ?thesis by simp
      next
        case c: True
        obtain r2 t2 where gen: "generateCoverageReport w od rf t1 = (r2, t2)"
          by (cases "generateCoverageReport w od rf t1")
        from gen_spec[OF gen] obtain more where
          t2: "t2 = t1 @ more" and pm: "prefix (map fst (execs more)) coverage_cmds" by blast
        from c rt run gen have "t = t2" by (cases r2) simp_all
        with t2 pm show ?thesis by blast
      qed
      then obtain more where t: "t = t1 @ more"
        and pm: "prefix (map fst (execs more)) coverage_cmds" by blast
      from pm have subm: "set (map fst (execs more)) \<subseteq> set coverage_cmds" by (rule set_mono_prefix)
      have ne: "new_events tr t = new @ more" by (simp add: t t1 new_events_def)
      have none: "\<And>x. x \<in> set (execs (new @ more)) \<Longrightarrow> fst x \<in> set ?T \<Longrightarrow> snd x = Inr 0"
      proof -
        fix x assume x: "x \<in> set (execs (new @ more))" and f: "fst x \<in> set ?T"
        from x have "x \<in> set (execs new) \<or> x \<in> set (execs more)" by (simp add: execs_append)
        then show "snd x = Inr 0"
        proof
          assume "x \<in> set (execs new)"
          with all0 show ?thesis by blast
        next
          assume "x \<in> set (execs more)"
          then have "fst x \<in> set (map fst (execs more))" by simp
          with subm have "fst x \<in> set coverage_cmds" by blast
          with f test_cmds_not_coverage show ?thesis by blast
        qed
      qed
      have p1: "\<not> (\<exists>x\<in>set (execs (new @ more)). fst x \<in> set ?T \<and> snd x \<noteq> Inr 0)"
        using none by blast
      have "Inr 0 \<noteq> (Inr valgrindErrorCode :: string + int)" by (simp add: valgrindErrorCode_def)
      then have p2: "\<not> (\<exists>x\<in>set (execs (new @ more)). fst x \<in> set ?T \<and> snd x = Inr valgrindErrorCode)"
        using none by metis
      show ?thesis unfolding ne using p1 p2 by blast
    qed
  qed
qed

lemma loop_abort_last_event:
  "runTests_loop w ss dl gf od rf xf vg hf tr = (Inl e, t) \<Longrightarrow>
   \<exists>t0 c cwd out err res. t = t0 @ [Exec c cwd out err res]"
proof (induction ss arbitrary: hf tr)
  case Nil
  then show ?case by simp
next
  case (Cons x ss)
  obtain key s where x: "x = (key, s)" by (cases x)
  let ?c = "executeCmd w key s dl gf rf xf vg"
  let ?cwd = "getcwd w @ ''/'' @ od"
  obtain r1 t1 where run: "runcmd w ?c ?cwd rf True tr = (r1, t1)"
    by (cases "runcmd w ?c ?cwd rf True tr")
  show ?case
  proof (cases r1)
    case (Inl e1)
    from runcmd_Inl[OF run[unfolded Inl] ]
    have t1: "t1 = tr @ [Exec ?c ?cwd rf True (subprocess_run w tr ?c)]" by simp
    from Cons.prems run have "t = t1" by (auto simp: x runcmd_results_eq Inl)
    with t1 show ?thesis by blast
  next
    case (Inr st)
    from Cons.prems run have
      "\<exists>hf' t2. runTests_loop w ss dl gf od rf xf vg hf' t2 = (Inl e, t)"
      by (auto simp: x runcmd_results_eq Inr split: if_splits)
    then obtain hf' t2 where "runTests_loop w ss dl gf od rf xf vg hf' t2 = (Inl e, t)" by blast
    then show ?thesis by (rule Cons.IH)
  qed
qed

lemma execs_snoc_Exec: "execs (xs @ [Exec c cwd out err res]) = execs xs @ [(c, res)]"
  by (simp add: execs_append)

lemma runTests_exit_at_once:
  assumes run: "runTests w ss dl gf od rf xf vg cov tr = (r, t)"
    and mem: "(c, Inr rc) \<in> set (execs (new_events tr t))"
    and tc: "c \<in> set (test_cmds w ss dl gf rf xf vg)"
    and nz: "rc \<noteq> 0" and nv: "rc \<noteq> valgrindErrorCode"
  shows "r = Inl (SystemExit (exit_message c rc)) \<and>
     last (execs (new_events tr t)) = (c, Inr rc) \<and>
     prefix (map fst (execs (new_events tr t))) (test_cmds w ss dl gf rf xf vg) \<and>
     (\<exists>cwd out err. last (new_events tr t) = Exec c cwd out err (Inr rc))"
proof -
  let ?T = "test_cmds w ss dl gf rf xf vg"
  have nt: "\<not> tolerated (Inr rc)" using nz nv by simp
  obtain r1 t1 where loop: "runTests_loop w ss dl gf od rf xf vg False tr = (r1, t1)"
    by (cases "runTests_loop w ss dl gf od rf xf vg False tr")
  from loop_spec[OF loop] obtain new where
    t1: "t1 = tr @ new" and
    pre: "prefix (map fst (execs new)) ?T" and
    res: "(case r1 of
        Inr h \<Rightarrow> map fst (execs new) = ?T
               \<and> (\<forall>x\<in>set (execs new). tolerated (snd x))
               \<and> (h \<longleftrightarrow> False \<or> (\<exists>x\<in>set (execs new). snd x = Inr valgrindErrorCode))
      | Inl e \<Rightarrow> execs new \<noteq> [] \<and> \<not> tolerated (snd (last (execs new)))
               \<and> (\<forall>x\<in>set (butlast (execs new)). tolerated (snd x))
               \<and> (case snd (last (execs new)) of Inl m \<Rightarrow> e = PyException m
                   | Inr rc \<Rightarrow> e = SystemExit (exit_message (fst (last (execs new))) rc)))"
    by blast
  show ?thesis
  proof (cases r1)
    case (Inr h)
    with res have tol: "\<forall>x\<in>set (execs new). tolerated (snd x)" by simp
    have "\<exists>more. t = t1 @ more \<and> set (map fst (execs more)) \<subseteq> set coverage_cmds"
    proof (cases h)
      case True
      from loop Inr True have "runTests_loop w ss dl gf od rf xf vg False tr = (Inr True, t1)"
        by simp
      then have "runTests w ss dl gf od rf xf vg cov tr = (Inl aggregate_failure, t1)"
        by (rule runTests_loop_failed)
      with run show ?thesis by simp
    next
      case False
      from loop Inr False have "runTests_loop w ss dl gf od rf xf vg False tr = (Inr False, t1)"
        by simp
      then have rt: "runTests w ss dl gf od rf xf vg cov tr =
         (if cov then (case generateCoverageReport w od rf t1 of
                     (Inl e, t') \<Rightarrow> (Inl e, t') | (Inr v, t') \<Rightarrow> (Inr (), t'))
          else (Inr (), t1))"
        by (rule runTests_loop_passed)
      show ?thesis
      proof (cases cov)
        case c: False
        with rt run have "t = t1" by simp
        then show ?thesis by simp
      next
        case c: True
        obtain r2 t2 where gen: "generateCoverageReport w od rf t1 = (r2, t2)"
          by (cases "generateCoverageReport w od rf t1")
        from gen_spec[OF gen] obtain more where
          t2: "t2 = t1 @ more" and pm: "prefix (map fst (execs more)) coverage_cmds" by blast
        from c rt run gen have "t = t2" by (cases r2) simp_all
        with t2 set_mono_prefix[OF pm] show ?thesis by blast
      qed
    qed
    then obtain more where t: "t = t1 @ more"
      and sm: "set (map fst (execs more)) \<subseteq> set coverage_cmds" by blast
    have ne: "new_events tr t = new @ more" by (simp add: t t1 new_events_def)
    from mem have "(c, Inr rc) \<in> set (execs new) \<or> (c, Inr rc) \<in> set (execs more)"
      by (simp add: ne execs_append)
    then have False
    proof
      assume "(c, Inr rc) \<in> set (execs new)"
      with tol have "tolerated (Inr rc)" by fastforce
      with nt show False by simp
    next
      assume "(c, Inr rc) \<in> set (execs more)"
      then have "c \<in> set (map fst (execs more))" by force
      with sm have "c \<in> set coverage_cmds" by blast
      with tc test_cmds_not_coverage show False by blast
    qed
    then show ?thesis ..
  next
    case (Inl e)
    from loop have "runTests w ss dl gf od rf xf vg cov tr = (Inl e, t1)"
      unfolding Inl by (rule runTests_loop_abort)
    with run have r: "r = Inl e" and t: "t = t1" by simp_all
    have ne: "new_events tr t = new" by (simp add: t t1 new_events_append)
    from res Inl have nonempty: "execs new \<noteq> []"
      and bl: "\<forall>x\<in>set (butlast (execs new)). tolerated (snd x)"
      and e: "(case snd (last (execs new)) of Inl m \<Rightarrow> e = PyException m
                   | Inr rc \<Rightarrow> e = SystemExit (exit_message (fst (last (execs new))) rc))"
      by simp_all
    from nonempty have split: "execs new = butlast (execs new) @ [last (execs new)]" by simp
    from mem have "(c, Inr rc) \<in> set (execs new)" by (simp add: ne)
    with split have "(c, Inr rc) \<in> set (butlast (execs new)) \<or> (c, Inr rc) = last (execs new)"
      by (metis Un_iff empty_iff empty_set insert_iff list.simps(15) set_append)
    moreover have "(c, Inr rc) \<notin> set (butlast (execs new))"
    proof
      assume "(c, Inr rc) \<in> set (butlast (execs new))"
      with bl have "tolerated (Inr rc)" by fastforce
      with nt show False by simp
    qed
    ultimately have la: "last (execs new) = (c, Inr rc)" by simp
    from e have e': "e = SystemExit (exit_message c rc)" by (simp add: la)
    from loop_abort_last_event[OF loop[unfolded Inl] ] obtain t0 c' cwd out err res' where
      t1': "t1 = t0 @ [Exec c' cwd out err res']" by blast
    from nonempty have nn: "new \<noteq> []" by auto
    with t1 t1' have ln: "last new = Exec c' cwd out err res'"
      by (metis last_appendR snoc_eq_iff_butlast)
    from nn have "new = butlast new @ [last new]" by simp
    then have "execs new = execs (butlast new) @ [(c', res')]"
      unfolding ln by (metis execs_snoc_Exec)
    then have "last (execs new) = (c', res')" by simp
    with la have "c' = c" "res' = Inr rc" by simp_all
    with ln have lev: "last new = Exec c cwd out err (Inr rc)" by simp
    from r e' la pre lev show ?thesis unfolding ne by blast
  qed
qed

lemma two_suites_exit_run:
  "runTests (world_exit gst_binary 1) two_suites False None ''build'' None None False True []
     = (Inl (SystemExit (exit_message [gst_binary] 1)),
        [Exec [gst_binary] ''/work/build'' None True (Inr 1)])"
  by (simp add: runTests_def two_suites_def runcmd_results_def runcmd_def executeCmd_def gst_suite_def
      gst_binary_def world_exit_sel valgrindErrorCode_def)

section \<open>The claims\<close>

text \<open>
  C5.  Whenever both the valgrind flag and the xml flag are set, no argument of the test
  command starts with \<^verbatim>\<open>--gtest_output=xml:\<close>, the flag that makes googletest write
  its results as XML; and so no command that the loop of \<^verbatim>\<open>runTests\<close> spawns has it.
\<close>

theorem valgrind_suppresses_gtest_xml:
  assumes "xmlFile \<noteq> None" and "valgrind"
  shows "(\<forall>a\<in>set (executeCmd w key s dl gf rf xmlFile valgrind). \<not> prefix ''--gtest_output=xml:'' a) \<and>
         (\<forall>c\<in>set (map fst (execs (new_events tr (snd (runTests_loop w ss dl gf od rf xmlFile valgrind hf tr))))).
            \<forall>a\<in>set c. \<not> prefix ''--gtest_output=xml:'' a)"
proof
  show "\<forall>a\<in>set (executeCmd w key s dl gf rf xmlFile valgrind). \<not> prefix ''--gtest_output=xml:'' a"
    using assms(2) executeCmd_no_gtest_output by blast
next
  show "\<forall>c\<in>set (map fst (execs (new_events tr (snd (runTests_loop w ss dl gf od rf xmlFile valgrind hf tr))))).
            \<forall>a\<in>set c. \<not> prefix ''--gtest_output=xml:'' a"
  proof (intro ballI)
    fix c a
    assume c: "c \<in> set (map fst (execs (new_events tr (snd (runTests_loop w ss dl gf od rf xmlFile valgrind hf tr)))))"
      and a: "a \<in> set c"
    from c loop_cmds_subset have "c \<in> set (test_cmds w ss dl gf rf xmlFile valgrind)" by blast
    then obtain key' s' where "c = executeCmd w key' s' dl gf rf xmlFile valgrind"
      by (auto simp: test_cmds_def)
    with a assms(2) show "\<not> prefix ''--gtest_output=xml:'' a"
      using executeCmd_no_gtest_output by blast
  qed
qed

theorem valgrind_suppresses_gtest_xml_witness:
  "Some ''r.xml'' \<noteq> None \<and> True \<and>
   \<not> prefix ''--gtest_output=xml:'' ''--xml-file=gst_valgrind_report.xml'' \<and>
   ''--xml-file=gst_valgrind_report.xml'' \<in> set (executeCmd world_ok ''gst'' gst_suite False None None (Some ''r.xml'') True)"
proof -
  have mem: "''--xml-file=gst_valgrind_report.xml''
      \<in> set (executeCmd world_ok ''gst'' gst_suite False None None (Some ''r.xml'') True)"
    by (simp add: executeCmd_def AddValgrind_def valgrindOutput_def)
  have h1: "Some ''r.xml'' \<noteq> None" by simp
  from valgrind_suppresses_gtest_xml[OF h1 TrueI, of world_ok "''gst''" gst_suite False None None] mem
  show ?thesis by blast
qed

text \<open>
  C9.  When \<^verbatim>\<open>runcmd\<close> returns, the exit code of the status is 0 or the memory-check
  code 101.  So the loop of \<^verbatim>\<open>runTests\<close> never prints the report of the branch for
  another non-zero code (\<^verbatim>\<open>Command failed for suite ...\<close>), and \<^verbatim>\<open>hasFailed\<close> only
  becomes true when a test command has exited with the memory-check code.
\<close>

theorem failed_only_by_memcheck_code:
  "(\<forall>st t. runcmd w c cwd out err tr = (Inr st, t) \<longrightarrow>
        returncode st = 0 \<or> returncode st = valgrindErrorCode) \<and>
   (\<forall>r t m. runTests_loop w ss dl gf od rf xf vg hf tr = (r, t) \<longrightarrow>
        Print m \<in> set (new_events tr t) \<longrightarrow> \<not> prefix ''Command failed'' m) \<and>
   (\<forall>t. runTests_loop w ss dl gf od rf xf vg False tr = (Inr True, t) \<longrightarrow>
        (\<exists>c\<in>set (test_cmds w ss dl gf rf xf vg). (c, Inr valgrindErrorCode) \<in> set (execs (new_events tr t))))"
proof (intro conjI allI impI)
  fix st t assume "runcmd w c cwd out err tr = (Inr st, t)"
  from runcmd_Inr[OF this] show "returncode st = 0 \<or> returncode st = valgrindErrorCode"
    by auto
next
  fix r t m
  assume run: "runTests_loop w ss dl gf od rf xf vg hf tr = (r, t)"
    and pr: "Print m \<in> set (new_events tr t)"
  from loop_spec[OF run] obtain new where
    "t = tr @ new" "\<forall>m. Print m \<in> set new \<longrightarrow> prefix ''Valgrind failed'' m" by blast
  with pr have "prefix ''Valgrind failed'' m" by (simp add: new_events_append)
  then show "\<not> prefix ''Command failed'' m" by (rule valgrind_not_command)
next
  fix t assume run: "runTests_loop w ss dl gf od rf xf vg False tr = (Inr True, t)"
  from loop_spec[OF run] obtain new where
    t: "t = tr @ new" and
    m: "map fst (execs new) = test_cmds w ss dl gf rf xf vg" and
    ex: "\<exists>x\<in>set (execs new). snd x = Inr valgrindErrorCode"
    by auto
  from ex obtain c0 where c0: "(c0, Inr valgrindErrorCode) \<in> set (execs new)"
    by (metis prod.collapse)
  then have "c0 \<in> set (map fst (execs new))" by force
  with m c0 show "\<exists>c\<in>set (test_cmds w ss dl gf rf xf vg). (c, Inr valgrindErrorCode) \<in> set (execs (new_events tr t))"
    by (auto simp: t new_events_append)
qed

theorem failed_only_by_memcheck_code_witness:
  "runTests_loop (world_exit gst_binary 101) suitesToRun False None ''build'' None None False False []
     = (Inr True, [Exec [gst_binary] ''/work/build'' None True (Inr 101),
                   Print (''Valgrind failed for suite '' @ [CHR 0x27] @ ''gst'' @ [CHR 0x27])]) \<and>
   ([gst_binary], Inr valgrindErrorCode)
     \<in> set (execs (new_events [] [Exec [gst_binary] ''/work/build'' None True (Inr 101),
                   Print (''Valgrind failed for suite '' @ [CHR 0x27] @ ''gst'' @ [CHR 0x27])])) \<and>
   \<not> prefix ''Command failed'' (''Valgrind failed for suite '' @ [CHR 0x27] @ ''gst'' @ [CHR 0x27])"
proof -
  have tc: "test_cmds (world_exit gst_binary 101) suitesToRun False None None None False = [ [gst_binary] ]"
    by (simp add: test_cmds_def suitesToRun_def executeCmd_def gst_binary_def)
  from failed_only_by_memcheck_code[of "world_exit gst_binary 101" "[gst_binary]" "''/work/build''" None True "[]"
      suitesToRun False None "''build''" None None False False] gst_loop_101
  show ?thesis by (simp add: tc new_events_def)
qed



text \<open>
  C1.  Let the loop of \<^verbatim>\<open>runTests\<close> have come through the suites \<open>pre\<close> and reach the
  suite \<open>key\<close>.  If the test command of that suite exits with the memory-check code 101,
  \<^verbatim>\<open>hasFailed\<close> is set, the failure is printed and the loop goes on with the remaining
  suites \<open>post\<close> (so the run ends in a failure).  If it exits with any other non-zero
  code, \<^verbatim>\<open>runTests\<close> as a whole ends at once with \<^verbatim>\<open>SystemExit\<close>: the command is the
  last event of the trace and no suite of \<open>post\<close> is run.
\<close>

theorem suite_exit_code_handling:
  assumes "runTests_loop w pre dl gf od rf xf vg False tr = (Inr hf, t)"
  shows "(subprocess_run w t (executeCmd w key s dl gf rf xf vg) = Inr valgrindErrorCode \<longrightarrow>
            runTests_loop w (pre @ (key, s) # post) dl gf od rf xf vg False tr
              = runTests_loop w post dl gf od rf xf vg True
                  (t @ [Exec (executeCmd w key s dl gf rf xf vg) (getcwd w @ ''/'' @ od) rf True
                          (Inr valgrindErrorCode),
                        Print (''Valgrind failed for suite '' @ [CHR 0x27] @ key @ [CHR 0x27])])
            \<and> is_abort (fst (runTests w (pre @ (key, s) # post) dl gf od rf xf vg cov tr)))
       \<and> (\<forall>rc. subprocess_run w t (executeCmd w key s dl gf rf xf vg) = Inr rc \<and> rc \<noteq> 0
                 \<and> rc \<noteq> valgrindErrorCode \<longrightarrow>
            runTests w (pre @ (key, s) # post) dl gf od rf xf vg cov tr
              = (Inl (SystemExit (exit_message (executeCmd w key s dl gf rf xf vg) rc)),
                 t @ [Exec (executeCmd w key s dl gf rf xf vg) (getcwd w @ ''/'' @ od) rf True (Inr rc)]))"
proof (intro conjI impI allI)
  assume rc: "subprocess_run w t (executeCmd w key s dl gf rf xf vg) = Inr valgrindErrorCode"
  show eq: "runTests_loop w (pre @ (key, s) # post) dl gf od rf xf vg False tr
              = runTests_loop w post dl gf od rf xf vg True
                  (t @ [Exec (executeCmd w key s dl gf rf xf vg) (getcwd w @ ''/'' @ od) rf True
                          (Inr valgrindErrorCode),
                        Print (''Valgrind failed for suite '' @ [CHR 0x27] @ key @ [CHR 0x27])])"
    by (simp only: loop_append assms prod.case sum.case loop_step_memcheck[OF rc])
  show "is_abort (fst (runTests w (pre @ (key, s) # post) dl gf od rf xf vg cov tr))"
    by (rule runTests_after_failed[OF eq])
next
  fix rc
  assume "subprocess_run w t (executeCmd w key s dl gf rf xf vg) = Inr rc \<and> rc \<noteq> 0
                 \<and> rc \<noteq> valgrindErrorCode"
  then have a: "subprocess_run w t (executeCmd w key s dl gf rf xf vg) = Inr rc"
    and b: "rc \<noteq> 0" and c: "rc \<noteq> valgrindErrorCode" by auto
  have "runTests_loop w (pre @ (key, s) # post) dl gf od rf xf vg False tr
      = (Inl (SystemExit (exit_message (executeCmd w key s dl gf rf xf vg) rc)),
                 t @ [Exec (executeCmd w key s dl gf rf xf vg) (getcwd w @ ''/'' @ od) rf True (Inr rc)])"
    by (simp only: loop_append assms prod.case sum.case loop_step_exit[OF a b c])
  then show "runTests w (pre @ (key, s) # post) dl gf od rf xf vg cov tr
              = (Inl (SystemExit (exit_message (executeCmd w key s dl gf rf xf vg) rc)),
                 t @ [Exec (executeCmd w key s dl gf rf xf vg) (getcwd w @ ''/'' @ od) rf True (Inr rc)])"
    by (simp add: runTests_def)
qed

theorem suite_exit_code_handling_witness:
  "runTests_loop (world_exit gst_binary 101) two_suites False None ''build'' None None False False []
     = (Inr True, [Exec [gst_binary] ''/work/build'' None True (Inr 101),
                   Print (''Valgrind failed for suite '' @ [CHR 0x27] @ ''gst'' @ [CHR 0x27]),
                   Exec [''./tests/ut/ExtraUnitTests''] ''/work/build'' None True (Inr 0)]) \<and>
   is_abort (fst (runTests (world_exit gst_binary 101) two_suites False None ''build'' None None False True [])) \<and>
   runTests (world_exit gst_binary 1) two_suites False None ''build'' None None False True []
     = (Inl (SystemExit (exit_message [gst_binary] 1)),
        [Exec [gst_binary] ''/work/build'' None True (Inr 1)])"
proof -
  have pre: "\<And>w. runTests_loop w [] False None ''build'' None None False False [] = (Inr False, [])"
    by simp
  have r101: "subprocess_run (world_exit gst_binary 101) [] [gst_binary] = Inr valgrindErrorCode"
    by (simp add: world_exit_def world_ok_def valgrindErrorCode_def)
  have r1: "subprocess_run (world_exit gst_binary 1) [] [gst_binary] = Inr 1"
    by (simp add: world_exit_def world_ok_def)
  have rest: "runTests_loop (world_exit gst_binary 101) [(''extra'', \<lparr>suite = ''ExtraUnitTests'', path = ''/tests/ut/''\<rparr>)]
       False None ''build'' None None False True
       [Exec [gst_binary] ''/work/build'' None True (Inr 101),
        Print (''Valgrind failed for suite '' @ [CHR 0x27] @ ''gst'' @ [CHR 0x27])]
     = (Inr True, [Exec [gst_binary] ''/work/build'' None True (Inr 101),
                   Print (''Valgrind failed for suite '' @ [CHR 0x27] @ ''gst'' @ [CHR 0x27]),
                   Exec [''./tests/ut/ExtraUnitTests''] ''/work/build'' None True (Inr 0)])"
    by (simp add: runcmd_results_def runcmd_def executeCmd_def world_exit_def world_ok_def
        valgrindErrorCode_def gst_binary_def)
  have cwd: "\<And>rc. getcwd (world_exit gst_binary rc) = ''/work''"
    by (simp add: world_exit_def world_ok_def)
  note a = suite_exit_code_handling[OF pre, of "world_exit gst_binary 101" "''gst''" gst_suite
      "[(''extra'', \<lparr>suite = ''ExtraUnitTests'', path = ''/tests/ut/''\<rparr>)]" True]
  note b = suite_exit_code_handling[OF pre, of "world_exit gst_binary 1" "''gst''" gst_suite
      "[(''extra'', \<lparr>suite = ''ExtraUnitTests'', path = ''/tests/ut/''\<rparr>)]" True]
  from a b r101 r1 rest show ?thesis
    by (simp add: gst_cmd_plain two_suites_def cwd valgrindErrorCode_def)
qed



text \<open>
  C4.  As stated the claim fails: \<^verbatim>\<open>runcmd\<close> lets the exit code 101 through for every
  command, so a \<^verbatim>\<open>cmake\<close> that exits with 101 is followed by \<^verbatim>\<open>make\<close> and by the tests,
  and the run ends normally.
\<close>

theorem build_exit_101_counterexample:
  "fst (main (world_exit ''cmake'' 101) no_flags []) = Inr () \<and>
   execs (snd (main (world_exit ''cmake'' 101) no_flags []))
     = [(cmakeCmd ''build'' False [], Inr 101),
        ([''make'', ''-j8'', ''GstRialtoUnitTests''], Inr 0),
        ([gst_binary], Inr 0)]"
  by (simp add: main_def main_clean_def main_file_def buildTargets_def runTests_def runcmd_results_def
      runcmd_def world_exit_sel cmakeCmd_def makeCmd_def suitesToRun_def str_nat_8
      valgrindErrorCode_def executeCmd_def gst_binary_def main_xml_def no_flags_def)

text \<open>
  C4, amended.  An exit code of \<^verbatim>\<open>cmake\<close> other than 0 and 101 ends \<^verbatim>\<open>buildTargets\<close>
  with \<^verbatim>\<open>SystemExit\<close> right after that one call, without \<^verbatim>\<open>make\<close>; when \<^verbatim>\<open>cmake\<close> exits
  with 0 or 101, an exit code of \<^verbatim>\<open>make\<close> other than 0 and 101 ends it with
  \<^verbatim>\<open>SystemExit\<close> right after that one call; and \<^verbatim>\<open>main\<close> ends with whatever ends
  \<^verbatim>\<open>buildTargets\<close>, nothing being run afterwards.  The exit code 101 is let through
  like 0: when \<^verbatim>\<open>cmake\<close> exits with 0 or 101, \<^verbatim>\<open>make\<close> is run next, once, and when \<^verbatim>\<open>make\<close>
  exits with 0 or 101 as well, \<^verbatim>\<open>buildTargets\<close> returns normally.
\<close>

theorem build_exit_aborts_run:
  "(\<forall>rc. subprocess_run w tr (cmakeCmd od cov br) = Inr rc \<and> rc \<noteq> 0 \<and> rc \<noteq> valgrindErrorCode \<longrightarrow>
       buildTargets w ss od rf dbg cov br tr
         = (Inl (SystemExit (exit_message (cmakeCmd od cov br) rc)),
            tr @ [Exec (cmakeCmd od cov br) (getcwd w) None False (Inr rc)])) \<and>
   (\<forall>rc1 rc t'. subprocess_run w tr (cmakeCmd od cov br) = Inr rc1 \<and> (rc1 = 0 \<or> rc1 = valgrindErrorCode) \<and>
       t' = tr @ [Exec (cmakeCmd od cov br) (getcwd w) None False (Inr rc1),
                  Print (''+ '' @ join_sp (makeCmd w ss))] \<and>
       subprocess_run w t' (makeCmd w ss) = Inr rc \<and> rc \<noteq> 0 \<and> rc \<noteq> valgrindErrorCode \<longrightarrow>
       buildTargets w ss od rf dbg cov br tr
         = (Inl (SystemExit (exit_message (makeCmd w ss) rc)),
            t' @ [Exec (makeCmd w ss) (getcwd w @ ''/'' @ od) rf (rf \<noteq> None) (Inr rc)])) \<and>
   (\<forall>u t1 f t2 e t. \<not> arg_noBuild a \<and>
       main_clean w a (tr0 @ [SetEnv ''RIALTO_SINKS_RANK'' ''256'']) = (Inr u, t1) \<and>
       main_file w a t1 = (Inr f, t2) \<and>
       buildTargets w suitesToRun (arg_output a) f (arg_valgrind a) (arg_coverage a) (arg_branch a) t2
         = (Inl e, t) \<longrightarrow>
       main w a tr0 = (Inl e, t)) \<and>
   (\<forall>rc1 rc t'. subprocess_run w tr (cmakeCmd od cov br) = Inr rc1 \<and> (rc1 = 0 \<or> rc1 = valgrindErrorCode) \<and>
       t' = tr @ [Exec (cmakeCmd od cov br) (getcwd w) None False (Inr rc1),
                  Print (''+ '' @ join_sp (makeCmd w ss))] \<and>
       subprocess_run w t' (makeCmd w ss) = Inr rc \<and> (rc = 0 \<or> rc = valgrindErrorCode) \<longrightarrow>
       buildTargets w ss od rf dbg cov br tr
         = (Inr (), t' @ [Exec (makeCmd w ss) (getcwd w @ ''/'' @ od) rf (rf \<noteq> None) (Inr rc)])) \<and>
   (\<forall>rc1 t'. subprocess_run w tr (cmakeCmd od cov br) = Inr rc1 \<and> (rc1 = 0 \<or> rc1 = valgrindErrorCode) \<and>
       t' = tr @ [Exec (cmakeCmd od cov br) (getcwd w) None False (Inr rc1),
                  Print (''+ '' @ join_sp (makeCmd w ss))] \<longrightarrow>
       snd (buildTargets w ss od rf dbg cov br tr)
         = t' @ [Exec (makeCmd w ss) (getcwd w @ ''/'' @ od) rf (rf \<noteq> None)
                   (subprocess_run w t' (makeCmd w ss))])"
proof (intro conjI allI impI)
  fix rc
  assume "subprocess_run w tr (cmakeCmd od cov br) = Inr rc \<and> rc \<noteq> 0 \<and> rc \<noteq> valgrindErrorCode"
  then show "buildTargets w ss od rf dbg cov br tr
         = (Inl (SystemExit (exit_message (cmakeCmd od cov br) rc)),
            tr @ [Exec (cmakeCmd od cov br) (getcwd w) None False (Inr rc)])"
    by (simp add: buildTargets_cmake_fails)
next
  fix rc1 rc t'
  assume h: "subprocess_run w tr (cmakeCmd od cov br) = Inr rc1 \<and> (rc1 = 0 \<or> rc1 = valgrindErrorCode) \<and>
       t' = tr @ [Exec (cmakeCmd od cov br) (getcwd w) None False (Inr rc1),
                  Print (''+ '' @ join_sp (makeCmd w ss))] \<and>
       subprocess_run w t' (makeCmd w ss) = Inr rc \<and> rc \<noteq> 0 \<and> rc \<noteq> valgrindErrorCode"
  then have tol: "tolerated (subprocess_run w tr (cmakeCmd od cov br))" by auto
  from h have t': "t' = tr @ [Exec (cmakeCmd od cov br) (getcwd w) None False (subprocess_run w tr (cmakeCmd od cov br)),
                  Print (''+ '' @ join_sp (makeCmd w ss))]" by simp
  from h have mk: "subprocess_run w t' (makeCmd w ss) = Inr rc" and nz: "rc \<noteq> 0"
    and nv: "rc \<noteq> valgrindErrorCode" by auto
  from mk nz nv show "buildTargets w ss od rf dbg cov br tr
         = (Inl (SystemExit (exit_message (makeCmd w ss) rc)),
            t' @ [Exec (makeCmd w ss) (getcwd w @ ''/'' @ od) rf (rf \<noteq> None) (Inr rc)])"
    unfolding buildTargets_cmake_ok[OF tol t'] by simp
next
  fix u t1 f t2 e t
  assume "\<not> arg_noBuild a \<and>
       main_clean w a (tr0 @ [SetEnv ''RIALTO_SINKS_RANK'' ''256'']) = (Inr u, t1) \<and>
       main_file w a t1 = (Inr f, t2) \<and>
       buildTargets w suitesToRun (arg_output a) f (arg_valgrind a) (arg_coverage a) (arg_branch a) t2
         = (Inl e, t)"
  then show "main w a tr0 = (Inl e, t)"
    using main_build_abort by blast
next
  fix rc1 rc t'
  assume h: "subprocess_run w tr (cmakeCmd od cov br) = Inr rc1 \<and> (rc1 = 0 \<or> rc1 = valgrindErrorCode) \<and>
       t' = tr @ [Exec (cmakeCmd od cov br) (getcwd w) None False (Inr rc1),
                  Print (''+ '' @ join_sp (makeCmd w ss))] \<and>
       subprocess_run w t' (makeCmd w ss) = Inr rc \<and> (rc = 0 \<or> rc = valgrindErrorCode)"
  then have tol: "tolerated (subprocess_run w tr (cmakeCmd od cov br))" by auto
  from h have t': "t' = tr @ [Exec (cmakeCmd od cov br) (getcwd w) None False (subprocess_run w tr (cmakeCmd od cov br)),
                  Print (''+ '' @ join_sp (makeCmd w ss))]" by simp
  from h have mk: "subprocess_run w t' (makeCmd w ss) = Inr rc"
    and ok: "rc = 0 \<or> rc = valgrindErrorCode" by auto
  from mk ok show "buildTargets w ss od rf dbg cov br tr
         = (Inr (), t' @ [Exec (makeCmd w ss) (getcwd w @ ''/'' @ od) rf (rf \<noteq> None) (Inr rc)])"
    unfolding buildTargets_cmake_ok[OF tol t'] by auto
next
  fix rc1 t'
  assume h: "subprocess_run w tr (cmakeCmd od cov br) = Inr rc1 \<and> (rc1 = 0 \<or> rc1 = valgrindErrorCode) \<and>
       t' = tr @ [Exec (cmakeCmd od cov br) (getcwd w) None False (Inr rc1),
                  Print (''+ '' @ join_sp (makeCmd w ss))]"
  then have tol: "tolerated (subprocess_run w tr (cmakeCmd od cov br))" by auto
  from h have t': "t' = tr @ [Exec (cmakeCmd od cov br) (getcwd w) None False (subprocess_run w tr (cmakeCmd od cov br)),
                  Print (''+ '' @ join_sp (makeCmd w ss))]" by simp
  show "snd (buildTargets w ss od rf dbg cov br tr)
         = t' @ [Exec (makeCmd w ss) (getcwd w @ ''/'' @ od) rf (rf \<noteq> None)
                   (subprocess_run w t' (makeCmd w ss))]"
    unfolding buildTargets_cmake_ok[OF tol t'] by simp
qed

theorem build_exit_aborts_run_witness:
  "main (world_exit ''cmake'' 1) no_flags []
     = (Inl (SystemExit (exit_message (cmakeCmd ''build'' False []) 1)),
        [SetEnv ''RIALTO_SINKS_RANK'' ''256'',
         Exec (cmakeCmd ''build'' False []) ''/work'' None False (Inr 1)]) \<and>
   buildTargets (world_exit ''make'' 2) suitesToRun ''build'' None False False [] []
     = (Inl (SystemExit (exit_message [''make'', ''-j8'', ''GstRialtoUnitTests''] 2)),
        [Exec (cmakeCmd ''build'' False []) ''/work'' None False (Inr 0),
         Print ''+ make -j8 GstRialtoUnitTests'',
         Exec [''make'', ''-j8'', ''GstRialtoUnitTests''] ''/work/build'' None False (Inr 2)]) \<and>
   buildTargets (world_exit ''cmake'' 101) suitesToRun ''build'' None False False [] []
     = (Inr (),
        [Exec (cmakeCmd ''build'' False []) ''/work'' None False (Inr 101),
         Print ''+ make -j8 GstRialtoUnitTests'',
         Exec [''make'', ''-j8'', ''GstRialtoUnitTests''] ''/work/build'' None False (Inr 0)]) \<and>
   buildTargets (world_exit ''make'' 101) suitesToRun ''build'' None False False [] []
     = (Inr (),
        [Exec (cmakeCmd ''build'' False []) ''/work'' None False (Inr 0),
         Print ''+ make -j8 GstRialtoUnitTests'',
         Exec [''make'', ''-j8'', ''GstRialtoUnitTests''] ''/work/build'' None False (Inr 101)])"
proof -
  have mk: "\<And>p rc. makeCmd (world_exit p rc) suitesToRun = [''make'', ''-j8'', ''GstRialtoUnitTests'']"
    by (simp add: makeCmd_def suitesToRun_def world_exit_sel str_nat_8)
  note a = build_exit_aborts_run[of "world_exit ''cmake'' 1" "[SetEnv ''RIALTO_SINKS_RANK'' ''256'']"
      "''build''" False "[]" suitesToRun None False no_flags "[]"]
  note b = build_exit_aborts_run[of "world_exit ''make'' 2" "[]"
      "''build''" False "[]" suitesToRun None False no_flags "[]"]
  have p1: "subprocess_run (world_exit ''cmake'' 1) [SetEnv ''RIALTO_SINKS_RANK'' ''256'']
        (cmakeCmd ''build'' False []) = Inr 1 \<and> (1::int) \<noteq> 0 \<and> 1 \<noteq> valgrindErrorCode"
    by (simp add: world_exit_sel cmakeCmd_def valgrindErrorCode_def)
  from a[THEN conjunct1, rule_format, OF p1]
  have a1: "buildTargets (world_exit ''cmake'' 1) suitesToRun ''build'' None False False []
        [SetEnv ''RIALTO_SINKS_RANK'' ''256'']
      = (Inl (SystemExit (exit_message (cmakeCmd ''build'' False []) 1)),
         [SetEnv ''RIALTO_SINKS_RANK'' ''256'',
          Exec (cmakeCmd ''build'' False []) ''/work'' None False (Inr 1)])"
    by (simp add: world_exit_sel)
  have p3: "\<not> arg_noBuild no_flags \<and>
       main_clean (world_exit ''cmake'' 1) no_flags ([] @ [SetEnv ''RIALTO_SINKS_RANK'' ''256''])
         = (Inr (), [SetEnv ''RIALTO_SINKS_RANK'' ''256'']) \<and>
       main_file (world_exit ''cmake'' 1) no_flags [SetEnv ''RIALTO_SINKS_RANK'' ''256'']
         = (Inr None, [SetEnv ''RIALTO_SINKS_RANK'' ''256'']) \<and>
       buildTargets (world_exit ''cmake'' 1) suitesToRun (arg_output no_flags) None (arg_valgrind no_flags)
          (arg_coverage no_flags) (arg_branch no_flags) [SetEnv ''RIALTO_SINKS_RANK'' ''256'']
       = (Inl (SystemExit (exit_message (cmakeCmd ''build'' False []) 1)),
         [SetEnv ''RIALTO_SINKS_RANK'' ''256'',
          Exec (cmakeCmd ''build'' False []) ''/work'' None False (Inr 1)])"
    using a1 by (simp add: no_flags_setup)
  note a2 = a[THEN conjunct2, THEN conjunct2, THEN conjunct1, rule_format, OF p3]
  have p2: "subprocess_run (world_exit ''make'' 2) [] (cmakeCmd ''build'' False []) = Inr 0 \<and>
      ((0::int) = 0 \<or> (0::int) = valgrindErrorCode) \<and>
      [Exec (cmakeCmd ''build'' False []) ''/work'' None False (Inr 0),
       Print ''+ make -j8 GstRialtoUnitTests'']
      = [] @ [Exec (cmakeCmd ''build'' False []) (getcwd (world_exit ''make'' 2)) None False (Inr 0),
              Print (''+ '' @ join_sp (makeCmd (world_exit ''make'' 2) suitesToRun))] \<and>
      subprocess_run (world_exit ''make'' 2)
        [Exec (cmakeCmd ''build'' False []) ''/work'' None False (Inr 0),
         Print ''+ make -j8 GstRialtoUnitTests'']
        (makeCmd (world_exit ''make'' 2) suitesToRun) = Inr 2 \<and>
      (2::int) \<noteq> 0 \<and> 2 \<noteq> valgrindErrorCode"
    by (simp add: world_exit_sel cmakeCmd_def valgrindErrorCode_def mk)
  from b[THEN conjunct2, THEN conjunct1, rule_format, OF p2]
  have b1: "buildTargets (world_exit ''make'' 2) suitesToRun ''build'' None False False [] []
     = (Inl (SystemExit (exit_message [''make'', ''-j8'', ''GstRialtoUnitTests''] 2)),
        [Exec (cmakeCmd ''build'' False []) ''/work'' None False (Inr 0),
         Print ''+ make -j8 GstRialtoUnitTests'',
         Exec [''make'', ''-j8'', ''GstRialtoUnitTests''] ''/work/build'' None False (Inr 2)])"
    by (simp add: world_exit_sel mk)
  note c = build_exit_aborts_run[of "world_exit ''cmake'' 101" "[]"
      "''build''" False "[]" suitesToRun None False no_flags "[]"]
  note d = build_exit_aborts_run[of "world_exit ''make'' 101" "[]"
      "''build''" False "[]" suitesToRun None False no_flags "[]"]
  have p4: "subprocess_run (world_exit ''cmake'' 101) [] (cmakeCmd ''build'' False []) = Inr 101 \<and>
      ((101::int) = 0 \<or> (101::int) = valgrindErrorCode) \<and>
      [Exec (cmakeCmd ''build'' False []) ''/work'' None False (Inr 101),
       Print ''+ make -j8 GstRialtoUnitTests'']
      = [] @ [Exec (cmakeCmd ''build'' False []) (getcwd (world_exit ''cmake'' 101)) None False (Inr 101),
              Print (''+ '' @ join_sp (makeCmd (world_exit ''cmake'' 101) suitesToRun))] \<and>
      subprocess_run (world_exit ''cmake'' 101)
        [Exec (cmakeCmd ''build'' False []) ''/work'' None False (Inr 101),
         Print ''+ make -j8 GstRialtoUnitTests'']
        (makeCmd (world_exit ''cmake'' 101) suitesToRun) = Inr 0 \<and>
      ((0::int) = 0 \<or> (0::int) = valgrindErrorCode)"
    by (simp add: world_exit_sel cmakeCmd_def valgrindErrorCode_def mk)
  from c[THEN conjunct2, THEN conjunct2, THEN conjunct2, THEN conjunct1, rule_format, OF p4]
  have c1: "buildTargets (world_exit ''cmake'' 101) suitesToRun ''build'' None False False [] []
     = (Inr (),
        [Exec (cmakeCmd ''build'' False []) ''/work'' None False (Inr 101),
         Print ''+ make -j8 GstRialtoUnitTests'',
         Exec [''make'', ''-j8'', ''GstRialtoUnitTests''] ''/work/build'' None False (Inr 0)])"
    by (simp add: world_exit_sel mk)
  have p5: "subprocess_run (world_exit ''make'' 101) [] (cmakeCmd ''build'' False []) = Inr 0 \<and>
      ((0::int) = 0 \<or> (0::int) = valgrindErrorCode) \<and>
      [Exec (cmakeCmd ''build'' False []) ''/work'' None False (Inr 0),
       Print ''+ make -j8 GstRialtoUnitTests'']
      = [] @ [Exec (cmakeCmd ''build'' False []) (getcwd (world_exit ''make'' 101)) None False (Inr 0),
              Print (''+ '' @ join_sp (makeCmd (world_exit ''make'' 101) suitesToRun))] \<and>
      subprocess_run (world_exit ''make'' 101)
        [Exec (cmakeCmd ''build'' False []) ''/work'' None False (Inr 0),
         Print ''+ make -j8 GstRialtoUnitTests'']
        (makeCmd (world_exit ''make'' 101) suitesToRun) = Inr 101 \<and>
      ((101::int) = 0 \<or> (101::int) = valgrindErrorCode)"
    by (simp add: world_exit_sel cmakeCmd_def valgrindErrorCode_def mk)
  from d[THEN conjunct2, THEN conjunct2, THEN conjunct2, THEN conjunct1, rule_format, OF p5]
  have d1: "buildTargets (world_exit ''make'' 101) suitesToRun ''build'' None False False [] []
     = (Inr (),
        [Exec (cmakeCmd ''build'' False []) ''/work'' None False (Inr 0),
         Print ''+ make -j8 GstRialtoUnitTests'',
         Exec [''make'', ''-j8'', ''GstRialtoUnitTests''] ''/work/build'' None False (Inr 101)])"
    by (simp add: world_exit_sel mk)
  from a2 b1 c1 d1 show ?thesis by simp
qed

text \<open>
  C3.  As stated the claim fails: a step of \<^verbatim>\<open>generateCoverageReport\<close> that exits with
  1 does not make it return \<^verbatim>\<open>False\<close>; \<^verbatim>\<open>runcmd\<close> ends the run with \<^verbatim>\<open>SystemExit\<close>.
\<close>

theorem coverage_step_failure_counterexample:
  "generateCoverageReport (world_exit ''lcov'' 1) ''build'' None []
     = (Inl (SystemExit (exit_message lcovBaseCmd 1)),
        [Exec lcovBaseCmd ''/work/build'' None True (Inr 1)])"
  unfolding generateCoverageReport_def runcmd_results_eq runcmd_eq Let_def
  by (simp add: world_exit_sel coverage_heads valgrindErrorCode_def)

text \<open>
  C3, amended.  \<^verbatim>\<open>generateCoverageReport\<close> never returns \<^verbatim>\<open>False\<close>.  It runs its
  commands in the fixed order (baseline capture, post-test capture, merge, report,
  statistics); every command that is followed by another one has exited with 0 or 101;
  a command that exits with any other code is the last one, and the result is the
  \<^verbatim>\<open>SystemExit\<close> of \<^verbatim>\<open>runcmd\<close> for it.  When the generator returns, all five commands
  have run and the value is true.
\<close>

theorem coverage_step_failure_exits:
  assumes "generateCoverageReport w od rf tr = (r, t)"
  shows "r \<noteq> Inr (PyBool False) \<and>
     prefix (map fst (execs (new_events tr t))) coverage_cmds \<and>
     (\<forall>x\<in>set (butlast (execs (new_events tr t))). tolerated (snd x)) \<and>
     (\<forall>c res. execs (new_events tr t) \<noteq> [] \<and> last (execs (new_events tr t)) = (c, res)
          \<and> \<not> tolerated res \<longrightarrow> r = Inl (abort_of c res)) \<and>
     (\<forall>v. r = Inr v \<longrightarrow> truthy v \<and> map fst (execs (new_events tr t)) = coverage_cmds)"
proof -
  from gen_spec[OF assms] obtain new where
    t: "t = tr @ new" and
    pre: "prefix (map fst (execs new)) coverage_cmds" and
    gate: "\<forall>x\<in>set (butlast (execs new)). tolerated (snd x)" and
    res: "(case r of
        Inr v \<Rightarrow> truthy v \<and> map fst (execs new) = coverage_cmds \<and> tolerated (snd (last (execs new)))
      | Inl e \<Rightarrow> execs new \<noteq> [] \<and>
          (if tolerated (snd (last (execs new)))
           then map fst (execs new) = take 4 coverage_cmds \<and>
                (\<exists>f. open_raises w f = Some (case e of PyException m \<Rightarrow> m | SystemExit m \<Rightarrow> m)
                     \<and> e = PyException (case e of PyException m \<Rightarrow> m | SystemExit m \<Rightarrow> m))
           else e = abort_of (fst (last (execs new))) (snd (last (execs new)))))"
    by blast
  have ne: "new_events tr t = new" by (simp add: t new_events_append)
  have a: "r \<noteq> Inr (PyBool False)" using res by (cases r) auto
  have b: "\<forall>c res. execs new \<noteq> [] \<and> last (execs new) = (c, res) \<and> \<not> tolerated res
      \<longrightarrow> r = Inl (abort_of c res)"
    using res by (cases r) (auto split: if_splits)
  have c: "\<forall>v. r = Inr v \<longrightarrow> truthy v \<and> map fst (execs new) = coverage_cmds"
    using res by (cases r) auto
  from a b c pre gate show ?thesis unfolding ne by blast
qed

theorem coverage_step_failure_exits_witness:
  "generateCoverageReport (world_exit ''genhtml'' 3) ''build'' None []
     = (Inl (SystemExit (exit_message genHtmlCmd 3)),
        [Exec lcovBaseCmd ''/work/build'' None True (Inr 0),
         Exec lcovTestCmd ''/work/build'' None True (Inr 0),
         Exec lcovCombineCmd ''/work/build'' None True (Inr 0),
         Exec genHtmlCmd ''/work/build'' None True (Inr 3)]) \<and>
   prefix [lcovBaseCmd, lcovTestCmd, lcovCombineCmd, genHtmlCmd] coverage_cmds \<and>
   tolerated (Inr 0) \<and> \<not> tolerated (Inr 3) \<and>
   (Inl (SystemExit (exit_message genHtmlCmd 3)) :: exn + pyval) \<noteq> Inr (PyBool False)"
proof -
  note a = coverage_step_failure_exits[OF gen_genhtml_3]
  from a gen_genhtml_3 show ?thesis
    by (simp add: new_events_def valgrindErrorCode_def)
qed

text \<open>
  C6.  As stated the claim fails for a suite that fails with a code other than 101: with
  coverage requested and the test command exiting with 1, \<^verbatim>\<open>runTests\<close> ends with the
  \<^verbatim>\<open>SystemExit\<close> of \<^verbatim>\<open>runcmd\<close>, not with the aggregate failure, and of two suites the
  second is never attempted.
\<close>

theorem failed_suite_aggregate_counterexample:
  "runTests (world_exit gst_binary 1) suitesToRun False None ''build'' None None False True []
     = (Inl (SystemExit (exit_message [gst_binary] 1)),
        [Exec [gst_binary] ''/work/build'' None True (Inr 1)]) \<and>
   SystemExit (exit_message [gst_binary] 1) \<noteq> aggregate_failure \<and>
   map fst (execs (snd (runTests (world_exit gst_binary 1) two_suites False None ''build'' None None
       False True []))) = [ [gst_binary] ] \<and>
   length two_suites = 2"
  by (simp add: runTests_def suitesToRun_def two_suites_def runcmd_results_def runcmd_def executeCmd_def
      gst_suite_def gst_binary_def world_exit_sel valgrindErrorCode_def aggregate_failure_def)

text \<open>
  C6, amended.  In every run of \<^verbatim>\<open>runTests\<close> (so also with coverage requested): if some
  test command has come back with anything but exit code 0, the run ends in a failure
  and no command of the coverage report generator is spawned.  If moreover every command
  of the run has exited with 0 or 101 and a test command with 101, the failure is the
  aggregate failure and the commands of the run are exactly the test commands of all the
  suites, in order.  If a test command has exited with a code other than 0 and 101, the
  failure is the \<^verbatim>\<open>SystemExit\<close> of \<^verbatim>\<open>runcmd\<close> for it, that command is the last event of
  the run, and the commands of the run are the test commands of the suites up to that
  one: the remaining suites are not run.
\<close>

theorem failed_suite_blocks_coverage:
  assumes run: "runTests w ss dl gf od rf xf vg cov tr = (r, t)"
  shows "((\<exists>x\<in>set (execs (new_events tr t)).
              fst x \<in> set (test_cmds w ss dl gf rf xf vg) \<and> snd x \<noteq> Inr 0) \<longrightarrow>
            is_abort r \<and> set (map fst (execs (new_events tr t))) \<inter> set coverage_cmds = {})
       \<and> ((\<forall>x\<in>set (execs (new_events tr t)). tolerated (snd x)) \<and>
           (\<exists>x\<in>set (execs (new_events tr t)).
              fst x \<in> set (test_cmds w ss dl gf rf xf vg) \<and> snd x = Inr valgrindErrorCode) \<longrightarrow>
            r = Inl aggregate_failure \<and>
            map fst (execs (new_events tr t)) = test_cmds w ss dl gf rf xf vg)
       \<and> (\<forall>c rc. (c, Inr rc) \<in> set (execs (new_events tr t)) \<and>
              c \<in> set (test_cmds w ss dl gf rf xf vg) \<and> rc \<noteq> 0 \<and> rc \<noteq> valgrindErrorCode \<longrightarrow>
            r = Inl (SystemExit (exit_message c rc)) \<and>
            last (execs (new_events tr t)) = (c, Inr rc) \<and>
            prefix (map fst (execs (new_events tr t))) (test_cmds w ss dl gf rf xf vg) \<and>
            (\<exists>cwd out err. last (new_events tr t) = Exec c cwd out err (Inr rc)))"
proof (intro conjI)
  from runTests_failure_outcomes[OF run]
  show "(\<exists>x\<in>set (execs (new_events tr t)).
              fst x \<in> set (test_cmds w ss dl gf rf xf vg) \<and> snd x \<noteq> Inr 0) \<longrightarrow>
            is_abort r \<and> set (map fst (execs (new_events tr t))) \<inter> set coverage_cmds = {}"
    by (rule conjunct1)
next
  from runTests_failure_outcomes[OF run]
  show "(\<forall>x\<in>set (execs (new_events tr t)). tolerated (snd x)) \<and>
           (\<exists>x\<in>set (execs (new_events tr t)).
              fst x \<in> set (test_cmds w ss dl gf rf xf vg) \<and> snd x = Inr valgrindErrorCode) \<longrightarrow>
            r = Inl aggregate_failure \<and>
            map fst (execs (new_events tr t)) = test_cmds w ss dl gf rf xf vg"
    by (rule conjunct2)
next
  show "\<forall>c rc. (c, Inr rc) \<in> set (execs (new_events tr t)) \<and>
              c \<in> set (test_cmds w ss dl gf rf xf vg) \<and> rc \<noteq> 0 \<and> rc \<noteq> valgrindErrorCode \<longrightarrow>
            r = Inl (SystemExit (exit_message c rc)) \<and>
            last (execs (new_events tr t)) = (c, Inr rc) \<and>
            prefix (map fst (execs (new_events tr t))) (test_cmds w ss dl gf rf xf vg) \<and>
            (\<exists>cwd out err. last (new_events tr t) = Exec c cwd out err (Inr rc))"
  proof (intro allI impI)
    fix c rc
    assume h: "(c, Inr rc) \<in> set (execs (new_events tr t)) \<and>
              c \<in> set (test_cmds w ss dl gf rf xf vg) \<and> rc \<noteq> 0 \<and> rc \<noteq> valgrindErrorCode"
    then have "(c, Inr rc) \<in> set (execs (new_events tr t))"
      and "c \<in> set (test_cmds w ss dl gf rf xf vg)" and "rc \<noteq> 0" and "rc \<noteq> valgrindErrorCode"
      by simp_all
    then show "r = Inl (SystemExit (exit_message c rc)) \<and>
            last (execs (new_events tr t)) = (c, Inr rc) \<and>
            prefix (map fst (execs (new_events tr t))) (test_cmds w ss dl gf rf xf vg) \<and>
            (\<exists>cwd out err. last (new_events tr t) = Exec c cwd out err (Inr rc))"
      by (rule runTests_exit_at_once[OF run])
  qed
qed

theorem failed_suite_blocks_coverage_witness:
  "runTests (world_exit gst_binary 101) two_suites False None ''build'' None None False True []
     = (Inl aggregate_failure,
        [Exec [gst_binary] ''/work/build'' None True (Inr 101),
         Print (''Valgrind failed for suite '' @ [CHR 0x27] @ ''gst'' @ [CHR 0x27]),
         Exec [''./tests/ut/ExtraUnitTests''] ''/work/build'' None True (Inr 0)]) \<and>
   set [ [gst_binary], [''./tests/ut/ExtraUnitTests''] ] \<inter> set coverage_cmds = {} \<and>
   test_cmds (world_exit gst_binary 101) two_suites False None None None False
     = [ [gst_binary], [''./tests/ut/ExtraUnitTests''] ] \<and>
   runTests (world_exit gst_binary 1) two_suites False None ''build'' None None False True []
     = (Inl (SystemExit (exit_message [gst_binary] 1)),
        [Exec [gst_binary] ''/work/build'' None True (Inr 1)]) \<and>
   prefix [ [gst_binary] ] (test_cmds (world_exit gst_binary 1) two_suites False None None None False) \<and>
   (1::int) \<noteq> 0 \<and> 1 \<noteq> valgrindErrorCode"
proof -
  note a = failed_suite_blocks_coverage[OF two_suites_memcheck_run]
  have ex: "execs (new_events []
        [Exec [gst_binary] ''/work/build'' None True (Inr 101),
         Print (''Valgrind failed for suite '' @ [CHR 0x27] @ ''gst'' @ [CHR 0x27]),
         Exec [''./tests/ut/ExtraUnitTests''] ''/work/build'' None True (Inr 0)])
     = [([gst_binary], Inr 101), ([''./tests/ut/ExtraUnitTests''], Inr 0)]"
    by (simp add: new_events_def)
  from a two_suites_memcheck_run have first:
    "runTests (world_exit gst_binary 101) two_suites False None ''build'' None None False True []
     = (Inl aggregate_failure,
        [Exec [gst_binary] ''/work/build'' None True (Inr 101),
         Print (''Valgrind failed for suite '' @ [CHR 0x27] @ ''gst'' @ [CHR 0x27]),
         Exec [''./tests/ut/ExtraUnitTests''] ''/work/build'' None True (Inr 0)]) \<and>
     set [ [gst_binary], [''./tests/ut/ExtraUnitTests''] ] \<inter> set coverage_cmds = {} \<and>
     test_cmds (world_exit gst_binary 101) two_suites False None None None False
       = [ [gst_binary], [''./tests/ut/ExtraUnitTests''] ]"
    unfolding ex two_suites_cmds by simp
  note b = failed_suite_blocks_coverage[OF two_suites_exit_run]
  have p: "([gst_binary], Inr 1)
        \<in> set (execs (new_events [] [Exec [gst_binary] ''/work/build'' None True (Inr 1)])) \<and>
      [gst_binary] \<in> set (test_cmds (world_exit gst_binary 1) two_suites False None None None False) \<and>
      (1::int) \<noteq> 0 \<and> 1 \<noteq> valgrindErrorCode"
    by (simp add: new_events_def two_suites_cmds valgrindErrorCode_def)
  from b[THEN conjunct2, THEN conjunct2, rule_format, OF p]
  have second: "prefix [ [gst_binary] ]
      (test_cmds (world_exit gst_binary 1) two_suites False None None None False)"
    by (simp add: new_events_def)
  from first second two_suites_exit_run p show ?thesis by simp
qed

text \<open>
  C2.  As stated the claim fails for the removal of the build output directory and the
  old log files: that is the command \<^verbatim>\<open>rm -rf\<close>, run through \<^verbatim>\<open>runcmd\<close>, and when it exits
  with 1 the run ends there with \<^verbatim>\<open>SystemExit\<close>.
\<close>

theorem rm_failure_counterexample:
  "main (world_exit ''rm'' 1) clean_flag []
     = (Inl (SystemExit (exit_message (cleanCmd clean_flag) 1)),
        [SetEnv ''RIALTO_SINKS_RANK'' ''256'',
         Print (''Removing files within: '' @ includeDirs), RmTree includeDirs,
         Print (''Removing file: '' @ sourceFile), Remove sourceFile,
         Exec (cleanCmd clean_flag) ''/work'' None False (Inr 1)])"
  by (simp add: main_def main_clean_def checkAndRemoveFiles_def checkAndRemoveFiles_try_def runcmd_def
      cleanCmd_def world_exit_def world_ok_def clean_flag_def no_flags_def valgrindErrorCode_def)

text \<open>
  C2, amended.  \<^verbatim>\<open>checkAndRemoveFiles\<close> always returns: an exception raised while the
  third-party headers or the source file are removed (for one, by \<^verbatim>\<open>shutil.rmtree\<close>) is
  caught and printed, and the clean stage goes on to \<^verbatim>\<open>rm -rf\<close>.  That command is run
  through \<^verbatim>\<open>runcmd\<close>: the stage returns when it exits with 0 or 101, and otherwise ends
  with what \<^verbatim>\<open>runcmd\<close> raises, which ends \<^verbatim>\<open>main\<close>.
\<close>

theorem cleanup_errors_caught_rm_fails_fast:
  "\<exists>t. checkAndRemoveFiles w tr = (Inr (), t) \<and>
     (\<forall>m t0. checkAndRemoveFiles_try w tr = (Inl (PyException m), t0) \<longrightarrow>
          t = t0 @ [Print (''An error occurred: '' @ m)]) \<and>
     (\<forall>m. path_exists w includeDirs \<and> rmtree_raises w includeDirs = Some m \<longrightarrow>
          checkAndRemoveFiles_try w tr
            = (Inl (PyException m),
               tr @ [Print (''Removing files within: '' @ includeDirs), RmTree includeDirs])) \<and>
     (arg_clean a \<longrightarrow>
          main_clean w a tr
            = ((if tolerated (subprocess_run w t (cleanCmd a)) then Inr ()
                else Inl (abort_of (cleanCmd a) (subprocess_run w t (cleanCmd a)))),
               t @ [Exec (cleanCmd a) (getcwd w) None False (subprocess_run w t (cleanCmd a))])) \<and>
     (\<forall>e t'. main_clean w a (tr0 @ [SetEnv ''RIALTO_SINKS_RANK'' ''256'']) = (Inl e, t') \<longrightarrow>
          main w a tr0 = (Inl e, t'))"
proof -
  from checkAndRemoveFiles_returns obtain ev where
    c: "checkAndRemoveFiles w tr = (Inr (), tr @ ev)" by blast
  have a1: "\<forall>m t0. checkAndRemoveFiles_try w tr = (Inl (PyException m), t0) \<longrightarrow>
          tr @ ev = t0 @ [Print (''An error occurred: '' @ m)]"
    using c by (auto simp: checkAndRemoveFiles_def)
  have a2: "\<forall>m. path_exists w includeDirs \<and> rmtree_raises w includeDirs = Some m \<longrightarrow>
          checkAndRemoveFiles_try w tr
            = (Inl (PyException m),
               tr @ [Print (''Removing files within: '' @ includeDirs), RmTree includeDirs])"
    by (simp add: checkAndRemoveFiles_try_def)
  have a3: "arg_clean a \<longrightarrow>
          main_clean w a tr
            = ((if tolerated (subprocess_run w (tr @ ev) (cleanCmd a)) then Inr ()
                else Inl (abort_of (cleanCmd a) (subprocess_run w (tr @ ev) (cleanCmd a)))),
               (tr @ ev) @ [Exec (cleanCmd a) (getcwd w) None False (subprocess_run w (tr @ ev) (cleanCmd a))])"
    unfolding main_clean_def c runcmd_eq by simp
  have a4: "\<forall>e t'. main_clean w a (tr0 @ [SetEnv ''RIALTO_SINKS_RANK'' ''256'']) = (Inl e, t') \<longrightarrow>
          main w a tr0 = (Inl e, t')"
    using main_clean_abort by blast
  from c a1 a2 a3 a4 show ?thesis by blast
qed

theorem cleanup_errors_caught_rm_fails_fast_witness:
  "checkAndRemoveFiles world_rmtree_raises []
     = (Inr (), [Print (''Removing files within: '' @ includeDirs), RmTree includeDirs,
                 Print ''An error occurred: Permission denied'']) \<and>
   main_clean world_rmtree_raises clean_flag []
     = (Inr (), [Print (''Removing files within: '' @ includeDirs), RmTree includeDirs,
                 Print ''An error occurred: Permission denied'',
                 Exec (cleanCmd clean_flag) ''/work'' None False (Inr 0)])"
proof -
  from cleanup_errors_caught_rm_fails_fast[of world_rmtree_raises "[]" clean_flag "[]"]
  obtain t where
    c: "checkAndRemoveFiles world_rmtree_raises [] = (Inr (), t)" and
    m: "arg_clean clean_flag \<longrightarrow>
          main_clean world_rmtree_raises clean_flag []
            = ((if tolerated (subprocess_run world_rmtree_raises t (cleanCmd clean_flag)) then Inr ()
                else Inl (abort_of (cleanCmd clean_flag)
                       (subprocess_run world_rmtree_raises t (cleanCmd clean_flag)))),
               t @ [Exec (cleanCmd clean_flag) (getcwd world_rmtree_raises) None False
                      (subprocess_run world_rmtree_raises t (cleanCmd clean_flag))])"
    by blast
  from c rmtree_raises_run have t: "t = [Print (''Removing files within: '' @ includeDirs), RmTree includeDirs,
                 Print ''An error occurred: Permission denied'']" by simp
  have flag: "arg_clean clean_flag" by (simp add: clean_flag_def)
  have w: "\<And>tr c. subprocess_run world_rmtree_raises tr c = Inr 0" "getcwd world_rmtree_raises = ''/work''"
    by (simp_all add: world_rmtree_raises_def world_ok_def)
  from m flag have "main_clean world_rmtree_raises clean_flag []
     = (Inr (), t @ [Exec (cleanCmd clean_flag) ''/work'' None False (Inr 0)])"
    by (simp add: w)
  with rmtree_raises_run t show ?thesis by simp
qed

text \<open>
  C7.  As stated the claim fails for a run that an earlier stage ends: without any flag
  and with \<^verbatim>\<open>cmake\<close> exiting with 1, the run ends in the build stage and the test stage
  is never executed, although the noTest flag is absent.
\<close>

theorem build_failure_skips_tests_counterexample:
  "map fst (execs (snd (main (world_exit ''cmake'' 1) no_flags []))) = [cmakeCmd ''build'' False [] ] \<and>
   \<not> test_invocation (cmakeCmd ''build'' False []) \<and> \<not> arg_noTest no_flags \<and>
   is_abort (fst (main (world_exit ''cmake'' 1) no_flags []))"
  by (simp add: main_def main_clean_def main_file_def buildTargets_def runcmd_def world_exit_sel
      cmakeCmd_def valgrindErrorCode_def no_flags_def test_invocation_def suitesToRun_def)

text \<open>
  C7, amended.  In every run of \<^verbatim>\<open>main\<close>: with the noBuild flag no build tool is
  spawned, and with the noTest flag no test command is spawned.  Without the noBuild flag
  a build tool is spawned, provided the run gets there: the log file opens and the clean
  command, if it ran, exited with 0 or 101.  Without the noTest flag a test command is
  spawned, provided the run gets there: moreover every build command exited with 0 or
  101.  And the commands of the run split in two parts, the first without any test command
  and the second without any build tool: every build command comes before every test
  command.
\<close>

theorem stages_gated_by_flags:
  assumes "main w a tr = (r, t)"
  shows "(arg_noBuild a \<longrightarrow> (\<forall>x\<in>set (execs (new_events tr t)). \<not> build_tool (fst x))) \<and>
     (arg_noTest a \<longrightarrow> (\<forall>x\<in>set (execs (new_events tr t)). \<not> test_invocation (fst x))) \<and>
     (\<not> arg_noBuild a \<and> log_opens w a \<and>
        (\<forall>x\<in>set (execs (new_events tr t)). clean_tool (fst x) \<longrightarrow> tolerated (snd x)) \<longrightarrow>
        (\<exists>x\<in>set (execs (new_events tr t)). build_tool (fst x))) \<and>
     (\<not> arg_noTest a \<and> log_opens w a \<and>
        (\<forall>x\<in>set (execs (new_events tr t)). clean_tool (fst x) \<or> build_tool (fst x) \<longrightarrow> tolerated (snd x)) \<longrightarrow>
        (\<exists>x\<in>set (execs (new_events tr t)). test_invocation (fst x))) \<and>
     (\<exists>pre post. execs (new_events tr t) = pre @ post \<and>
        (\<forall>x\<in>set pre. \<not> test_invocation (fst x)) \<and> (\<forall>x\<in>set post. \<not> build_tool (fst x)))"
proof -
  from main_decomp[OF assms] obtain C B T where
    X: "execs (new_events tr t) = C @ B @ T" and
    c: "\<forall>x\<in>set C. clean_tool (fst x)" and b: "\<forall>x\<in>set B. build_tool (fst x)" and
    tt: "\<forall>x\<in>set T. \<not> build_tool (fst x) \<and> \<not> clean_tool (fst x)" and
    nb: "arg_noBuild a \<longrightarrow> B = []" and nt: "arg_noTest a \<longrightarrow> T = []" and
    ti: "T \<noteq> [] \<longrightarrow> (\<exists>x\<in>set T. test_invocation (fst x))" and
    rb: "\<not> arg_noBuild a \<and> (\<forall>x\<in>set C. tolerated (snd x)) \<and> log_opens w a \<longrightarrow> B \<noteq> []" and
    rt: "\<not> arg_noTest a \<and> (\<forall>x\<in>set C. tolerated (snd x)) \<and> log_opens w a
         \<and> (\<forall>x\<in>set B. tolerated (snd x)) \<longrightarrow> T \<noteq> []"
    by blast
  from c clean_tool_only have c': "\<forall>x\<in>set C. \<not> build_tool (fst x) \<and> \<not> test_invocation (fst x)"
    by blast
  from b build_tool_only have b': "\<forall>x\<in>set B. \<not> test_invocation (fst x)" by blast
  have p1: "arg_noBuild a \<longrightarrow> (\<forall>x\<in>set (C @ B @ T). \<not> build_tool (fst x))"
    using nb c' tt by auto
  have p2: "arg_noTest a \<longrightarrow> (\<forall>x\<in>set (C @ B @ T). \<not> test_invocation (fst x))"
    using nt c' b' by auto
  have p3: "\<not> arg_noBuild a \<and> log_opens w a \<and>
        (\<forall>x\<in>set (C @ B @ T). clean_tool (fst x) \<longrightarrow> tolerated (snd x)) \<longrightarrow>
        (\<exists>x\<in>set (C @ B @ T). build_tool (fst x))"
  proof
    assume h: "\<not> arg_noBuild a \<and> log_opens w a \<and>
        (\<forall>x\<in>set (C @ B @ T). clean_tool (fst x) \<longrightarrow> tolerated (snd x))"
    with c have "\<forall>x\<in>set C. tolerated (snd x)" by auto
    with h rb have "B \<noteq> []" by blast
    then obtain x where "x \<in> set B" by (cases B) auto
    with b show "\<exists>x\<in>set (C @ B @ T). build_tool (fst x)" by auto
  qed
  have p4: "\<not> arg_noTest a \<and> log_opens w a \<and>
        (\<forall>x\<in>set (C @ B @ T). clean_tool (fst x) \<or> build_tool (fst x) \<longrightarrow> tolerated (snd x)) \<longrightarrow>
        (\<exists>x\<in>set (C @ B @ T). test_invocation (fst x))"
  proof
    assume h: "\<not> arg_noTest a \<and> log_opens w a \<and>
        (\<forall>x\<in>set (C @ B @ T). clean_tool (fst x) \<or> build_tool (fst x) \<longrightarrow> tolerated (snd x))"
    with c have tc: "\<forall>x\<in>set C. tolerated (snd x)" by auto
    from h b have tb: "\<forall>x\<in>set B. tolerated (snd x)" by auto
    from h tc tb rt have "T \<noteq> []" by blast
    with ti show "\<exists>x\<in>set (C @ B @ T). test_invocation (fst x)" by auto
  qed
  have p5: "\<exists>pre post. C @ B @ T = pre @ post \<and>
        (\<forall>x\<in>set pre. \<not> test_invocation (fst x)) \<and> (\<forall>x\<in>set post. \<not> build_tool (fst x))"
    by (rule exI[of _ "C @ B"], rule exI[of _ T]) (use c' b' tt in auto)
  from p1 p2 p3 p4 p5 show ?thesis unfolding X by blast
qed

theorem stages_gated_by_flags_witness:
  "main world_ok no_flags []
     = (Inr (), [SetEnv ''RIALTO_SINKS_RANK'' ''256'',
                 Exec (cmakeCmd ''build'' False []) ''/work'' None False (Inr 0),
                 Print ''+ make -j8 GstRialtoUnitTests'',
                 Exec [''make'', ''-j8'', ''GstRialtoUnitTests''] ''/work/build'' None False (Inr 0),
                 Exec [gst_binary] ''/work/build'' None True (Inr 0)]) \<and>
   build_tool (cmakeCmd ''build'' False []) \<and> test_invocation [gst_binary] \<and>
   log_opens world_ok no_flags \<and> \<not> arg_noBuild no_flags \<and> \<not> arg_noTest no_flags \<and>
   main world_ok no_build_flag []
     = (Inr (), [SetEnv ''RIALTO_SINKS_RANK'' ''256'',
                 Exec [gst_binary] ''/work/build'' None True (Inr 0)]) \<and>
   arg_noBuild no_build_flag \<and> \<not> build_tool [gst_binary]"
proof -
  note a = stages_gated_by_flags[OF no_flags_run]
  note b = stages_gated_by_flags[OF no_build_run]
  have f: "log_opens world_ok no_flags" "\<not> arg_noBuild no_flags" "\<not> arg_noTest no_flags"
    "arg_noBuild no_build_flag"
    by (simp_all add: log_opens_def no_flags_def no_build_flag_def)
  have t: "build_tool (cmakeCmd ''build'' False [])" "test_invocation [gst_binary]"
    by (simp_all add: tool_cmakeCmd test_invocation_def gst_binary_def suitesToRun_def)
  from b f have "\<forall>x\<in>set (execs (new_events [] [SetEnv ''RIALTO_SINKS_RANK'' ''256'',
                 Exec [gst_binary] ''/work/build'' None True (Inr 0)])). \<not> build_tool (fst x)"
    by blast
  then have nb: "\<not> build_tool [gst_binary]" by (simp add: new_events_def)
  from a no_flags_run no_build_run f t nb show ?thesis by simp
qed

end
